theory Spec2Isabelle
  imports Complex_Main
begin

section \<open>Python values\<close>

subsection \<open>Strings\<close>

text \<open>
  A Python \<open>str\<close> is a sequence of Unicode code points; a code point is a natural
  number here, so that \<open>str.strip()\<close> and the regular expression class \<open>\s\<close> can be
  given Python's own whitespace set. \<open>ascii\<close> turns a literal into such a sequence.
\<close>

type_synonym pystr = "nat list"

definition ascii :: "string \<Rightarrow> pystr" where
  "ascii s = map of_char s"

text \<open>
  \<open>str.isspace\<close> on one code point. \<open>str.strip()\<close> without argument and \<open>\s\<close> in a
  \<open>str\<close> pattern both use it: U+0009..U+000D, U+001C..U+001F, U+0020, U+0085, U+00A0,
  U+1680, U+2000..U+200A, U+2028, U+2029, U+202F, U+205F, U+3000.
\<close>

definition isspace :: "nat \<Rightarrow> bool" where
  "isspace c \<longleftrightarrow>
     (9 \<le> c \<and> c \<le> 13) \<or> (28 \<le> c \<and> c \<le> 31) \<or> c = 32 \<or> c = 133 \<or> c = 160 \<or>
     c = 5760 \<or> (8192 \<le> c \<and> c \<le> 8202) \<or> c = 8232 \<or> c = 8233 \<or> c = 8239 \<or>
     c = 8287 \<or> c = 12288"

definition lstrip :: "pystr \<Rightarrow> pystr" where
  "lstrip s = dropWhile isspace s"

definition rstrip :: "pystr \<Rightarrow> pystr" where
  "rstrip s = rev (dropWhile isspace (rev s))"

definition strip :: "pystr \<Rightarrow> pystr" where
  "strip s = rstrip (lstrip s)"

fun startswith :: "pystr \<Rightarrow> pystr \<Rightarrow> bool" where
  "startswith s [] = True"
| "startswith [] (p # ps) = False"
| "startswith (c # cs) (p # ps) = (c = p \<and> startswith cs ps)"

text \<open>\<open>str_in p s\<close> is Python's \<open>p in s\<close> on strings: \<open>p\<close> occurs in \<open>s\<close> as a substring.\<close>

fun str_in :: "pystr \<Rightarrow> pystr \<Rightarrow> bool" where
  "str_in p [] = (p = [])"
| "str_in p (c # cs) = (startswith (c # cs) p \<or> str_in p cs)"

text \<open>\<open>str(n)\<close> for a non-negative integer: its decimal digits.\<close>

function str_nat :: "nat \<Rightarrow> pystr" where
  "str_nat n = (if n < 10 then [48 + n] else str_nat (n div 10) @ [48 + n mod 10])"
  by pat_completeness auto
termination
  by (relation "measure id") auto

subsection \<open>Decoded JSON\<close>

text \<open>
  What \<open>json.loads\<close> returns: \<open>None\<close>, a \<open>bool\<close>, an \<open>int\<close>, a \<open>float\<close>, a \<open>str\<close>, a
  \<open>list\<close> or a \<open>dict\<close>. A float is the real number it stands for; the infinities and
  NaN, which the decoder also accepts as literals, have no value here. A dict is an
  association list read by \<open>map_of\<close>; its keys are distinct.
\<close>

datatype json =
    JNull
  | JBool bool
  | JInt int
  | JFloat real
  | JStr pystr
  | JArr "json list"
  | JObj "(pystr \<times> json) list"

text \<open>Truth value of a decoded value, as the operator \<open>or\<close> tests it.\<close>

fun truthy :: "json \<Rightarrow> bool" where
  "truthy JNull = False"
| "truthy (JBool b) = b"
| "truthy (JInt i) = (i \<noteq> 0)"
| "truthy (JFloat f) = (f \<noteq> 0)"
| "truthy (JStr s) = (s \<noteq> [])"
| "truthy (JArr xs) = (xs \<noteq> [])"
| "truthy (JObj kvs) = (kvs \<noteq> [])"

subsection \<open>Exceptions\<close>

text \<open>
  An exception is its class and its message; \<open>str_exn\<close> is \<open>str(e)\<close> (for a
  \<open>KeyError\<close>, the key between apostrophes). \<open>UpstreamError\<close> stands for whatever the
  provider call raises.
\<close>

datatype exn =
    ValueError pystr
  | RuntimeError pystr
  | JSONDecodeError pystr
  | ValidationError pystr
  | KeyError pystr
  | UpstreamError pystr

fun str_exn :: "exn \<Rightarrow> pystr" where
  "str_exn (ValueError m) = m"
| "str_exn (RuntimeError m) = m"
| "str_exn (JSONDecodeError m) = m"
| "str_exn (ValidationError m) = m"
| "str_exn (KeyError k) = [39] @ k @ [39]"
| "str_exn (UpstreamError m) = m"

section \<open>The outside world\<close>

text \<open>
  The observable effects of the services are the calls of \<open>model.generate_content\<close>,
  each with its prompt, and the calls of \<open>asyncio.sleep\<close>, in the order they happen.
\<close>

datatype event = Generate pystr | Sleep nat

type_synonym world = "event list"

text \<open>
  What the program does not define itself is a parameter:
  \<^item> \<open>generate_content\<close>: what the provider answers to a prompt, given everything that
    happened before; \<open>Inr\<close> is \<open>response.text\<close>, \<open>Inl\<close> the exception raised by the call
    or by reading \<open>.text\<close>;
  \<^item> \<open>json_loads\<close>: the standard library's decoder;
  \<^item> \<open>validation_text\<close>: the message of the \<open>ValidationError\<close> pydantic raises for a
    rejected field value;
  \<^item> \<open>coerce_float\<close>: what pydantic makes of a value that is not a number when the
    field is a \<open>float\<close> (a numeric string, a bool), \<open>None\<close> when it rejects the value.
\<close>

record env =
  generate_content :: "world \<Rightarrow> pystr \<Rightarrow> exn + pystr"
  json_loads :: "pystr \<Rightarrow> exn + json"
  validation_text :: "json \<Rightarrow> pystr"
  coerce_float :: "json \<Rightarrow> real option"

text \<open>\<open>parsed[key]\<close> on a decoded dict.\<close>

definition getitem :: "(pystr \<times> json) list \<Rightarrow> pystr \<Rightarrow> exn + json" where
  "getitem d k = (case map_of d k of None \<Rightarrow> Inl (KeyError k) | Some v \<Rightarrow> Inr v)"

text \<open>
  \<open>json.dumps(texts, ensure_ascii=False, indent=2)\<close> on a list of strings: each string
  between double quotes on a line of its own, indented by two spaces; the quote, the
  backslash and the control characters below U+0020 escaped, everything else verbatim.
\<close>

definition hex_digit :: "nat \<Rightarrow> nat" where
  "hex_digit d = (if d < 10 then 48 + d else 87 + d)"

definition escape_char :: "nat \<Rightarrow> pystr" where
  "escape_char c =
     (if c = 34 then [92, 34]
      else if c = 92 then [92, 92]
      else if c = 10 then [92, 110]
      else if c = 13 then [92, 114]
      else if c = 9 then [92, 116]
      else if c = 8 then [92, 98]
      else if c = 12 then [92, 102]
      else if c < 32 then [92, 117, 48, 48, hex_digit (c div 16), hex_digit (c mod 16)]
      else [c])"

definition encode_string :: "pystr \<Rightarrow> pystr" where
  "encode_string s = [34] @ concat (map escape_char s) @ [34]"

fun join_lines :: "pystr list \<Rightarrow> pystr" where
  "join_lines [] = []"
| "join_lines [x] = x"
| "join_lines (x # y # ys) = x @ [44, 10] @ join_lines (y # ys)"

definition json_dumps :: "pystr list \<Rightarrow> pystr" where
  "json_dumps texts =
     (if texts = [] then [91, 93]
      else [91, 10] @ join_lines (map (\<lambda>t. [32, 32] @ encode_string t) texts) @ [10, 93])"

definition generate :: "env \<Rightarrow> pystr \<Rightarrow> world \<Rightarrow> (exn + pystr) \<times> world" where
  "generate env prompt w = (generate_content env w prompt, w @ [Generate prompt])"

definition sleep :: "nat \<Rightarrow> world \<Rightarrow> world" where
  "sleep secs w = w @ [Sleep secs]"

section \<open>models.py: cues\<close>

record SubtitleCue =
  cue_id :: pystr
  cue_text :: pystr

record TranslatedCue =
  tc_id :: pystr
  tc_text :: pystr
  translated_text :: pystr

text \<open>
  A pydantic field of type \<open>str\<close> takes a decoded JSON value only when it is a string;
  nothing else is converted.
\<close>

fun str_field :: "env \<Rightarrow> json \<Rightarrow> exn + pystr" where
  "str_field env (JStr s) = Inr s"
| "str_field env v = Inl (ValidationError (validation_text env v))"

text \<open>
  \<open>TranslatedCue(id=..., text=..., translated_text=...)\<close>: \<open>id\<close> and \<open>text\<close> come from a
  validated cue and are strings; \<open>translated_text\<close> is whatever the decoded array held.
\<close>

definition new_TranslatedCue :: "env \<Rightarrow> pystr \<Rightarrow> pystr \<Rightarrow> json \<Rightarrow> exn + TranslatedCue" where
  "new_TranslatedCue env i t tr =
     (case str_field env tr of
        Inl e \<Rightarrow> Inl e
      | Inr s \<Rightarrow> Inr \<lparr>tc_id = i, tc_text = t, translated_text = s\<rparr>)"

section \<open>services.py: the response parsers\<close>

text \<open>The three code points of a fence, and the tag \<open>json\<close>.\<close>

definition fence :: pystr where
  "fence = [96, 96, 96]"

definition json_tag :: pystr where
  "json_tag = [106, 115, 111, 110]"

text \<open>
  \<open>re.sub(r"^```(?:json)?\s*\n?", "", cleaned)\<close>. Without \<open>re.MULTILINE\<close> the anchor
  holds at position 0 only, so there is at most one match: three backticks, then
  \<open>json\<close> if it is there, then all the whitespace that follows (\<open>\s*\<close> is greedy), then
  a line feed if one is next.
\<close>

fun opt_newline :: "pystr \<Rightarrow> pystr" where
  "opt_newline (c # cs) = (if c = 10 then cs else c # cs)"
| "opt_newline [] = []"

definition sub_leading_fence :: "pystr \<Rightarrow> pystr" where
  "sub_leading_fence s =
     (if startswith s fence then
        (let r = drop 3 s;
             r' = (if startswith r json_tag then drop 4 r else r)
         in opt_newline (dropWhile isspace r'))
      else s)"

text \<open>
  \<open>re.sub(r"\n?```\s*$", "", cleaned)\<close>. A match at a position is an optional line feed,
  three backticks and nothing but whitespace up to the end of the string; when the line
  feed is taken and no backticks follow, the retry without it starts at that line feed
  and fails too. The leftmost match is replaced; it reaches the end, so no other follows.
\<close>

definition fence_to_end :: "pystr \<Rightarrow> bool" where
  "fence_to_end s \<longleftrightarrow> startswith s fence \<and> list_all isspace (drop 3 s)"

fun trailing_fence_here :: "pystr \<Rightarrow> bool" where
  "trailing_fence_here [] = False"
| "trailing_fence_here (c # cs) = (if c = 10 then fence_to_end cs else fence_to_end (c # cs))"

fun sub_trailing_fence :: "pystr \<Rightarrow> pystr" where
  "sub_trailing_fence [] = []"
| "sub_trailing_fence (c # cs) =
     (if trailing_fence_here (c # cs) then [] else c # sub_trailing_fence cs)"

text \<open>The four lines the three \<open>_parse_response\<close> methods share.\<close>

definition clean_response :: "pystr \<Rightarrow> pystr" where
  "clean_response response_text =
     strip (sub_trailing_fence (sub_leading_fence (strip response_text)))"

text \<open>\<open>SubtitleTranslationService._parse_response\<close>\<close>

definition subtitle_parse_response :: "env \<Rightarrow> pystr \<Rightarrow> exn + json list" where
  "subtitle_parse_response env response_text =
     (case json_loads env (clean_response response_text) of
        Inl e \<Rightarrow> Inl e
      | Inr parsed \<Rightarrow>
          (case parsed of
             JArr xs \<Rightarrow> Inr xs
           | _ \<Rightarrow> Inl (ValueError (ascii ''Response is not a JSON array''))))"

section \<open>services.py: SubtitleTranslationService\<close>

definition build_prompt :: "pystr list \<Rightarrow> pystr \<Rightarrow> pystr \<Rightarrow> pystr" where
  \<open>build_prompt texts source_lang target_lang =
     ascii ''You are a professional subtitle translator. '' @
     ascii ''Translate the following subtitle texts from '' @ source_lang @
       ascii '' to '' @ target_lang @ ascii ''.'' @ [10, 10] @
     ascii ''CRITICAL INSTRUCTIONS:'' @ [10] @
     ascii ''- Translate ONLY the text content'' @ [10] @
     ascii ''- Maintain the EXACT same number of lines as the original'' @ [10] @
     ascii ''- Preserve line breaks within each subtitle'' @ [10] @
     ascii ''- Keep the same tone and context'' @ [10] @
     ascii ''- Do NOT add explanations or comments'' @ [10] @
     ascii ''- Return ONLY a JSON array of translated strings'' @ [10, 10] @
     ascii ''Input ('' @ str_nat (length texts) @ ascii '' subtitles):'' @ [10] @
     json_dumps texts @ [10, 10] @
     ascii ''Output format:'' @ [10] @
     ascii ''Return a JSON array with '' @ str_nat (length texts) @
       ascii '' translated strings in the same order.'' @ [10, 10] @
     ascii ''Example:'' @ [10] @
     ascii ''["Translated text 1", "Translated text 2", ...]''\<close>

text \<open>
  The loop at the end of \<open>_translate_batch\<close>: \<open>idx\<close> counts the cues done, \<open>result\<close> is
  the list built so far.
\<close>

fun build_result ::
  "env \<Rightarrow> nat \<Rightarrow> SubtitleCue list \<Rightarrow> json list \<Rightarrow> TranslatedCue list \<Rightarrow> exn + TranslatedCue list"
where
  "build_result env idx [] translated_texts result = Inr result"
| "build_result env idx (cue # cues) translated_texts result =
     (let tr = (if idx < length translated_texts then translated_texts ! idx
                else JStr (cue_text cue))
      in case new_TranslatedCue env (cue_id cue) (cue_text cue) tr of
           Inl e \<Rightarrow> Inl e
         | Inr tc \<Rightarrow> build_result env (Suc idx) cues translated_texts (result @ [tc]))"

definition translate_batch ::
  "env \<Rightarrow> SubtitleCue list \<Rightarrow> pystr \<Rightarrow> pystr \<Rightarrow> world \<Rightarrow> (exn + TranslatedCue list) \<times> world"
where
  "translate_batch env cues source_lang target_lang w =
     (let texts = map cue_text cues;
          prompt = build_prompt texts source_lang target_lang;
          (response, w') = generate env prompt w
      in case response of
           Inl e \<Rightarrow> (Inl e, w')
         | Inr response_text \<Rightarrow>
             (case subtitle_parse_response env response_text of
                Inl e \<Rightarrow> (Inl e, w')
              | Inr translated_texts \<Rightarrow> (build_result env 0 cues translated_texts [], w')))"

text \<open>
  \<open>_translate_batch_with_retry\<close>: the list is what is left of \<open>range(MAX_RETRIES)\<close>.
  \<open>last_error or RuntimeError(...)\<close> takes the \<open>RuntimeError\<close> only when no attempt was
  made.
\<close>

definition non_retryable :: "exn \<Rightarrow> bool" where
  "non_retryable e \<longleftrightarrow>
     str_in (ascii ''API key'') (str_exn e) \<or> str_in (ascii ''quota'') (str_exn e)"

fun retry_attempts ::
  "env \<Rightarrow> nat list \<Rightarrow> exn option \<Rightarrow> SubtitleCue list \<Rightarrow> pystr \<Rightarrow> pystr \<Rightarrow> world
     \<Rightarrow> (exn + TranslatedCue list) \<times> world"
where
  "retry_attempts env [] last_error cues source_lang target_lang w =
     (Inl (case last_error of
             Some e \<Rightarrow> e
           | None \<Rightarrow> RuntimeError (ascii ''Translation failed after retries'')), w)"
| "retry_attempts env (attempt # rest) last_error cues source_lang target_lang w =
     (let w1 = (if attempt > 0 then sleep (2 ^ attempt) w else w)
      in case translate_batch env cues source_lang target_lang w1 of
           (Inr translated, w2) \<Rightarrow> (Inr translated, w2)
         | (Inl e, w2) \<Rightarrow>
             if non_retryable e then (Inl e, w2)
             else retry_attempts env rest (Some e) cues source_lang target_lang w2)"

definition retry_upto ::
  "nat \<Rightarrow> env \<Rightarrow> SubtitleCue list \<Rightarrow> pystr \<Rightarrow> pystr \<Rightarrow> world
     \<Rightarrow> (exn + TranslatedCue list) \<times> world"
where
  "retry_upto max_retries env cues source_lang target_lang w =
     retry_attempts env [0..<max_retries] None cues source_lang target_lang w"

definition MAX_RETRIES :: nat where
  "MAX_RETRIES = 3"

definition translate_batch_with_retry ::
  "env \<Rightarrow> SubtitleCue list \<Rightarrow> pystr \<Rightarrow> pystr \<Rightarrow> world \<Rightarrow> (exn + TranslatedCue list) \<times> world"
where
  "translate_batch_with_retry = retry_upto MAX_RETRIES"

text \<open>
  \<open>range(0, n, step)\<close> for a positive step: the multiples of \<open>step\<close> below \<open>n\<close>. A zero
  step raises \<open>ValueError\<close>; with a negative step the range from 0 up is empty.
  \<open>cues[i : i + batch_size]\<close> is \<open>take batch_size (drop i cues)\<close>.
\<close>

definition range_step :: "nat \<Rightarrow> nat \<Rightarrow> nat list" where
  "range_step n step = map (\<lambda>k. k * step) [0..<(n + step - 1) div step]"

definition make_batches :: "SubtitleCue list \<Rightarrow> int \<Rightarrow> exn + SubtitleCue list list" where
  "make_batches cues batch_size =
     (if batch_size = 0 then Inl (ValueError (ascii ''range() arg 3 must not be zero''))
      else if batch_size < 0 then Inr []
      else Inr (map (\<lambda>i. take (nat batch_size) (drop i cues))
                  (range_step (length cues) (nat batch_size))))"

fun translate_batches ::
  "env \<Rightarrow> SubtitleCue list list \<Rightarrow> pystr \<Rightarrow> pystr \<Rightarrow> TranslatedCue list \<Rightarrow> world
     \<Rightarrow> (exn + TranslatedCue list) \<times> world"
where
  "translate_batches env [] source_language target_language all_translated w =
     (Inr all_translated, w)"
| "translate_batches env (batch # batches) source_language target_language all_translated w =
     (case translate_batch_with_retry env batch source_language target_language w of
        (Inl e, w') \<Rightarrow> (Inl e, w')
      | (Inr translated, w') \<Rightarrow>
          translate_batches env batches source_language target_language
            (all_translated @ translated) w')"

definition translate_subtitles ::
  "env \<Rightarrow> SubtitleCue list \<Rightarrow> pystr \<Rightarrow> pystr \<Rightarrow> int \<Rightarrow> world
     \<Rightarrow> (exn + TranslatedCue list) \<times> world"
where
  "translate_subtitles env cues source_language target_language batch_size w =
     (case make_batches cues batch_size of
        Inl e \<Rightarrow> (Inl e, w)
      | Inr batches \<Rightarrow> translate_batches env batches source_language target_language [] w)"

section \<open>main.py: POST /translate/subtitle\<close>

record SubtitleTranslationRequest =
  req_cues :: "SubtitleCue list"
  req_source_language :: pystr
  req_target_language :: pystr
  req_batch_size :: int

record SubtitleTranslationResponse =
  st_success :: bool
  st_translated_cues :: "TranslatedCue list"
  st_error_message :: "pystr option"

definition translate_subtitles_endpoint ::
  "env \<Rightarrow> SubtitleTranslationRequest \<Rightarrow> world \<Rightarrow> SubtitleTranslationResponse \<times> world"
where
  "translate_subtitles_endpoint env request w =
     (case translate_subtitles env (req_cues request) (req_source_language request)
             (req_target_language request) (req_batch_size request) w of
        (Inr translated_cues, w') \<Rightarrow>
          (\<lparr>st_success = True, st_translated_cues = translated_cues,
            st_error_message = None\<rparr>, w')
      | (Inl e, w') \<Rightarrow>
          (\<lparr>st_success = False, st_translated_cues = [],
            st_error_message = Some (str_exn e)\<rparr>, w'))"

section \<open>models.py: request validation\<close>

text \<open>
  A request body arrives as raw field values. A field with a default may be absent
  (\<open>None\<close>); pydantic then takes the default and runs no validator on it. A field
  declared with \<open>min_length\<close> and \<open>max_length\<close> is checked for its length first, and the
  method decorated with \<open>@validator\<close> runs on the value that passed.
\<close>

definition field_error :: "env \<Rightarrow> pystr \<Rightarrow> exn" where
  "field_error env v = ValidationError (validation_text env (JStr v))"

text \<open>
  \<open>text: str = Field(..., min_length=1, max_length=5000)\<close> with \<open>validate_text\<close>. To
  count the length pydantic encodes the string, which fails on a surrogate code point
  (U+D800..U+DFFF): a text that holds one is rejected before anything else.
\<close>

definition is_surrogate :: "nat \<Rightarrow> bool" where
  "is_surrogate c \<longleftrightarrow> 55296 \<le> c \<and> c \<le> 57343"

definition validate_text :: "env \<Rightarrow> pystr \<Rightarrow> exn + pystr" where
  "validate_text env v =
     (if list_ex is_surrogate v then Inl (field_error env v)
      else if length v < 1 \<or> 5000 < length v then Inl (field_error env v)
      else if strip v = [] then Inl (field_error env v)
      else Inr (strip v))"

text \<open>\<open>validate_language\<close> and \<open>validate_target_language\<close>\<close>

definition validate_language :: "env \<Rightarrow> pystr \<Rightarrow> exn + pystr" where
  "validate_language env v =
     (if strip v = [] then Inl (field_error env v) else Inr (strip v))"

text \<open>A field with a default and a validator.\<close>

definition with_default ::
  "pystr \<Rightarrow> (pystr \<Rightarrow> exn + pystr) \<Rightarrow> pystr option \<Rightarrow> exn + pystr" where
  "with_default d validator raw = (case raw of None \<Rightarrow> Inr d | Some v \<Rightarrow> validator v)"

record TranslationRequest =
  tr_text :: pystr
  tr_source_language :: pystr
  tr_target_language :: pystr

record raw_TranslationRequest =
  raw_tr_text :: pystr
  raw_tr_source_language :: "pystr option"
  raw_tr_target_language :: "pystr option"

definition new_TranslationRequest :: "env \<Rightarrow> raw_TranslationRequest \<Rightarrow> exn + TranslationRequest"
where
  "new_TranslationRequest env raw =
     (case validate_text env (raw_tr_text raw) of
        Inl e \<Rightarrow> Inl e
      | Inr t \<Rightarrow>
          (case with_default (ascii ''English'') (validate_language env)
                  (raw_tr_source_language raw) of
             Inl e \<Rightarrow> Inl e
           | Inr src \<Rightarrow>
               (case with_default (ascii ''Telugu'') (validate_language env)
                       (raw_tr_target_language raw) of
                  Inl e \<Rightarrow> Inl e
                | Inr tgt \<Rightarrow>
                    Inr \<lparr>tr_text = t, tr_source_language = src, tr_target_language = tgt\<rparr>)))"

text \<open>
  \<open>SubtitleCue\<close> and \<open>SubtitleTranslationRequest\<close> declare no validator: a cue is taken
  as it comes, the list must have at least one cue, \<open>batch_size\<close> must lie in 1..100.
\<close>

record raw_SubtitleTranslationRequest =
  raw_cues :: "SubtitleCue list"
  raw_source_language :: "pystr option"
  raw_target_language :: "pystr option"
  raw_batch_size :: "int option"

definition new_SubtitleTranslationRequest ::
  "env \<Rightarrow> raw_SubtitleTranslationRequest \<Rightarrow> exn + SubtitleTranslationRequest"
where
  "new_SubtitleTranslationRequest env raw =
     (if length (raw_cues raw) < 1 then
        Inl (ValidationError (validation_text env (JArr [])))
      else
        (let batch_size = (case raw_batch_size raw of None \<Rightarrow> 25 | Some b \<Rightarrow> b)
         in if batch_size < 1 \<or> 100 < batch_size then
              Inl (ValidationError (validation_text env (JInt batch_size)))
            else
              Inr \<lparr>req_cues = raw_cues raw,
                   req_source_language =
                     (case raw_source_language raw of None \<Rightarrow> ascii ''English'' | Some v \<Rightarrow> v),
                   req_target_language =
                     (case raw_target_language raw of None \<Rightarrow> ascii ''Spanish'' | Some v \<Rightarrow> v),
                   req_batch_size = batch_size\<rparr>))"

record TextTranslationRequest =
  tt_text :: pystr
  tt_source_language :: pystr
  tt_target_language :: pystr

record raw_TextTranslationRequest =
  raw_tt_text :: pystr
  raw_tt_source_language :: "pystr option"
  raw_tt_target_language :: pystr

definition new_TextTranslationRequest ::
  "env \<Rightarrow> raw_TextTranslationRequest \<Rightarrow> exn + TextTranslationRequest"
where
  "new_TextTranslationRequest env raw =
     (case validate_text env (raw_tt_text raw) of
        Inl e \<Rightarrow> Inl e
      | Inr t \<Rightarrow>
          (case validate_language env (raw_tt_target_language raw) of
             Inl e \<Rightarrow> Inl e
           | Inr tgt \<Rightarrow>
               Inr \<lparr>tt_text = t,
                    tt_source_language =
                      (case raw_tt_source_language raw of
                         None \<Rightarrow> ascii ''Auto-detect''
                       | Some v \<Rightarrow> v),
                    tt_target_language = tgt\<rparr>))"

record LanguageDetectionRequest =
  ld_text :: pystr

definition new_LanguageDetectionRequest :: "env \<Rightarrow> pystr \<Rightarrow> exn + LanguageDetectionRequest"
where
  "new_LanguageDetectionRequest env raw_text =
     (case validate_text env raw_text of
        Inl e \<Rightarrow> Inl e
      | Inr t \<Rightarrow> Inr \<lparr>ld_text = t\<rparr>)"

section \<open>Language detection\<close>

subsection \<open>services.py: LanguageDetectionService\<close>

definition detect_prompt :: "pystr \<Rightarrow> pystr" where
  \<open>detect_prompt text_in =
     ascii ''You are a language identification expert. '' @
     ascii ''Detect the language of the following text.'' @ [10, 10] @
     ascii ''INSTRUCTIONS:'' @ [10] @
     ascii ''- Return ONLY a JSON object with two keys: "language" and "confidence"'' @ [10] @
     ascii ''- "language" should be the full English name of the language (e.g. "Spanish", "Japanese")'' @ [10] @
     ascii ''- "confidence" should be a float between 0 and 1 indicating how confident you are'' @ [10] @
     ascii ''- Do NOT add any explanation or text outside the JSON'' @ [10, 10] @
     ascii ''Text:'' @ [10] @ text_in\<close>

text \<open>
  The message of the two object parsers:
  \<open>Response must be a JSON object with 'k1' and 'k2' keys\<close>.
\<close>

definition shape_message :: "pystr \<Rightarrow> pystr \<Rightarrow> pystr" where
  "shape_message k1 k2 =
     ascii ''Response must be a JSON object with '' @ [39] @ k1 @ [39] @ ascii '' and '' @
     [39] @ k2 @ [39] @ ascii '' keys''"

text \<open>\<open>LanguageDetectionService._parse_response\<close>\<close>

definition detection_parse_response :: "env \<Rightarrow> pystr \<Rightarrow> exn + (pystr \<times> json) list" where
  "detection_parse_response env response_text =
     (case json_loads env (clean_response response_text) of
        Inl e \<Rightarrow> Inl e
      | Inr parsed \<Rightarrow>
          (case parsed of
             JObj d \<Rightarrow>
               if map_of d (ascii ''language'') = None \<or> map_of d (ascii ''confidence'') = None
               then Inl (ValueError (shape_message (ascii ''language'') (ascii ''confidence'')))
               else Inr d
           | _ \<Rightarrow> Inl (ValueError (shape_message (ascii ''language'') (ascii ''confidence'')))))"

text \<open>
  \<open>detect\<close> returns \<open>(success, detected_language, confidence, error_message)\<close>. The two
  middle components are whatever the decoded object held, \<open>JNull\<close> being \<open>None\<close>.
\<close>

type_synonym detect_result = "bool \<times> json \<times> json \<times> pystr option"

definition detect :: "env \<Rightarrow> pystr \<Rightarrow> world \<Rightarrow> detect_result \<times> world" where
  "detect env text_in w =
     (let (response, w') = generate env (detect_prompt text_in) w;
          failed = (\<lambda>e. (False, JNull, JNull,
                      Some (ascii ''Language detection failed: '' @ str_exn e)))
      in case response of
           Inl e \<Rightarrow> (failed e, w')
         | Inr response_text \<Rightarrow>
             (case detection_parse_response env response_text of
                Inl e \<Rightarrow> (failed e, w')
              | Inr result \<Rightarrow>
                  (case getitem result (ascii ''language'') of
                     Inl e \<Rightarrow> (failed e, w')
                   | Inr language \<Rightarrow>
                       (case getitem result (ascii ''confidence'') of
                          Inl e \<Rightarrow> (failed e, w')
                        | Inr confidence \<Rightarrow> ((True, language, confidence, None), w')))))"

subsection \<open>models.py: LanguageDetectionResponse\<close>

record LanguageDetectionResponse =
  ldr_success :: bool
  ldr_detected_language :: "pystr option"
  ldr_confidence :: "real option"
  ldr_error_message :: "pystr option"

text \<open>A field of type \<open>Optional[str]\<close>.\<close>

fun optional_str_field :: "env \<Rightarrow> json \<Rightarrow> exn + pystr option" where
  "optional_str_field env JNull = Inr None"
| "optional_str_field env (JStr s) = Inr (Some s)"
| "optional_str_field env v = Inl (ValidationError (validation_text env v))"

text \<open>
  \<open>confidence: Optional[float] = Field(None, ge=0, le=1)\<close>: \<open>None\<close> passes; a number is
  taken as a float and must lie between 0 and 1; any other value is first converted, if
  pydantic converts it at all.
\<close>

definition bounded_float :: "env \<Rightarrow> json \<Rightarrow> real \<Rightarrow> exn + real option" where
  "bounded_float env v x =
     (if 0 \<le> x \<and> x \<le> 1 then Inr (Some x)
      else Inl (ValidationError (validation_text env v)))"

fun confidence_field :: "env \<Rightarrow> json \<Rightarrow> exn + real option" where
  "confidence_field env JNull = Inr None"
| "confidence_field env (JFloat x) = bounded_float env (JFloat x) x"
| "confidence_field env (JInt i) = bounded_float env (JInt i) (of_int i)"
| "confidence_field env v =
     (case coerce_float env v of
        None \<Rightarrow> Inl (ValidationError (validation_text env v))
      | Some x \<Rightarrow> bounded_float env v x)"

definition new_LanguageDetectionResponse ::
  "env \<Rightarrow> bool \<Rightarrow> json \<Rightarrow> json \<Rightarrow> pystr option \<Rightarrow> exn + LanguageDetectionResponse"
where
  "new_LanguageDetectionResponse env success detected_language confidence error_message =
     (case optional_str_field env detected_language of
        Inl e \<Rightarrow> Inl e
      | Inr l \<Rightarrow>
          (case confidence_field env confidence of
             Inl e \<Rightarrow> Inl e
           | Inr c \<Rightarrow>
               Inr \<lparr>ldr_success = success, ldr_detected_language = l, ldr_confidence = c,
                    ldr_error_message = error_message\<rparr>))"

subsection \<open>main.py: POST /detect/language\<close>

definition detect_language ::
  "env \<Rightarrow> LanguageDetectionRequest \<Rightarrow> world \<Rightarrow> LanguageDetectionResponse \<times> world"
where
  "detect_language env request w =
     (case detect env (ld_text request) w of
        ((success, detected_language, confidence, error_message), w') \<Rightarrow>
          (case new_LanguageDetectionResponse env success detected_language confidence
                  error_message of
             Inr response \<Rightarrow> (response, w')
           | Inl e \<Rightarrow>
               (\<lparr>ldr_success = False, ldr_detected_language = None, ldr_confidence = None,
                 ldr_error_message = Some (str_exn e)\<rparr>, w')))"

section \<open>Transliteration\<close>

subsection \<open>services.py: TransliterationService\<close>

definition transliterate_prompt :: "pystr \<Rightarrow> pystr \<Rightarrow> pystr \<Rightarrow> pystr" where
  \<open>transliterate_prompt text_in source_script target_script =
     (let source_instruction =
            (if source_script \<noteq> ascii ''Auto-detect''
             then ascii ''The text is written in '' @ source_script @ ascii '' script. ''
             else ascii ''First identify the script/writing system of the text. '')
      in
     ascii ''You are a professional transliteration expert with deep knowledge of writing systems worldwide.'' @ [10, 10] @
     source_instruction @
     ascii ''Transliterate the following text into '' @ target_script @ ascii ''.'' @ [10, 10] @
     ascii ''CRITICAL INSTRUCTIONS:'' @ [10] @
     ascii ''- Transliteration means converting the SOUND/PRONUNCIATION of the text into the target script, NOT translating the meaning'' @ [10] @
     ascii ''- Preserve the original pronunciation as accurately as possible'' @ [10] @
     ascii ''- Use standard/widely-accepted transliteration conventions:'' @ [10] @
     ascii ''  * For Latin/Roman output: use the most common romanization system for the source language '' @
     ascii ''(e.g., Hepburn for Japanese, Pinyin for Chinese, IAST-inspired for Hindi/Sanskrit, '' @
     ascii ''ISO 233 inspired for Arabic)'' @ [10] @
     ascii ''  * For non-Latin output: use the standard script conventions of the target writing system'' @ [10] @
     ascii ''- Preserve spacing, punctuation, and line breaks'' @ [10] @
     ascii ''- Keep numbers as-is unless they are written in a non-Latin numeral system and target is Latin'' @ [10] @
     ascii ''- Do NOT translate the meaning '' @ [8212] @ ascii '' only convert the script'' @ [10] @
     ascii ''- Do NOT add any explanations, notes, or annotations'' @ [10, 10] @
     ascii ''Return ONLY a JSON object with these keys:'' @ [10] @
     ascii ''- "source_script": the detected or confirmed source script name (e.g. "Devanagari", "Arabic", "Katakana")'' @ [10] @
     ascii ''- "result": the transliterated text'' @ [10, 10] @
     ascii ''Text to transliterate:'' @ [10] @ text_in)\<close>

text \<open>\<open>TransliterationService._parse_response\<close>\<close>

definition transliteration_parse_response :: "env \<Rightarrow> pystr \<Rightarrow> exn + (pystr \<times> json) list"
where
  "transliteration_parse_response env response_text =
     (case json_loads env (clean_response response_text) of
        Inl e \<Rightarrow> Inl e
      | Inr parsed \<Rightarrow>
          (case parsed of
             JObj d \<Rightarrow>
               if map_of d (ascii ''result'') = None \<or> map_of d (ascii ''source_script'') = None
               then Inl (ValueError (shape_message (ascii ''result'') (ascii ''source_script'')))
               else Inr d
           | _ \<Rightarrow> Inl (ValueError (shape_message (ascii ''result'') (ascii ''source_script'')))))"

text \<open>
  \<open>transliterate\<close> returns
  \<open>(success, transliterated_text, detected_source_script, error_message)\<close>.
\<close>

type_synonym transliterate_result = "bool \<times> json \<times> json \<times> pystr option"

definition transliterate ::
  "env \<Rightarrow> pystr \<Rightarrow> pystr \<Rightarrow> pystr \<Rightarrow> world \<Rightarrow> transliterate_result \<times> world"
where
  "transliterate env text_in source_script target_script w =
     (let (response, w') =
            generate env (transliterate_prompt text_in source_script target_script) w;
          failed = (\<lambda>e. (False, JNull, JNull,
                      Some (ascii ''Transliteration failed: '' @ str_exn e)))
      in case response of
           Inl e \<Rightarrow> (failed e, w')
         | Inr response_text \<Rightarrow>
             (case transliteration_parse_response env response_text of
                Inl e \<Rightarrow> (failed e, w')
              | Inr result \<Rightarrow>
                  (case getitem result (ascii ''source_script'') of
                     Inl e \<Rightarrow> (failed e, w')
                   | Inr detected \<Rightarrow>
                       (case getitem result (ascii ''result'') of
                          Inl e \<Rightarrow> (failed e, w')
                        | Inr transliterated \<Rightarrow>
                            ((True, transliterated, detected, None), w')))))"

subsection \<open>The transliteration models\<close>

text \<open>
  Modelled from the spec: \<open>TransliterationRequest\<close> and \<open>TransliterationResponse\<close>, which
  main.py imports from models.py and whose declarations are not in the source. The
  fields are those of the interface table,
  \<open>{text, source_script, target_script}\<close> and
  \<open>{success, transliterated_text?, source_script, target_script, error_message?}\<close>, which
  are also the keyword arguments main.py passes; they are typed like the fields of the
  sibling response models: a \<open>?\<close> field is \<open>Optional[str]\<close>, the scripts are \<open>str\<close>.
\<close>

record TransliterationRequest =
  tl_text :: pystr
  tl_source_script :: pystr
  tl_target_script :: pystr

record TransliterationResponse =
  tlr_success :: bool
  tlr_transliterated_text :: "pystr option"
  tlr_source_script :: pystr
  tlr_target_script :: pystr
  tlr_error_message :: "pystr option"

definition new_TransliterationResponse ::
  "env \<Rightarrow> bool \<Rightarrow> json \<Rightarrow> json \<Rightarrow> pystr \<Rightarrow> pystr option \<Rightarrow> exn + TransliterationResponse"
where
  "new_TransliterationResponse env success transliterated_text source_script target_script
       error_message =
     (case optional_str_field env transliterated_text of
        Inl e \<Rightarrow> Inl e
      | Inr t \<Rightarrow>
          (case str_field env source_script of
             Inl e \<Rightarrow> Inl e
           | Inr s \<Rightarrow>
               Inr \<lparr>tlr_success = success, tlr_transliterated_text = t, tlr_source_script = s,
                    tlr_target_script = target_script, tlr_error_message = error_message\<rparr>))"

subsection \<open>main.py: POST /transliterate\<close>

text \<open>\<open>source_script or request.source_script\<close>\<close>

definition or_else :: "json \<Rightarrow> pystr \<Rightarrow> json" where
  "or_else v d = (if truthy v then v else JStr d)"

definition transliterate_text ::
  "env \<Rightarrow> TransliterationRequest \<Rightarrow> world \<Rightarrow> TransliterationResponse \<times> world"
where
  "transliterate_text env request w =
     (case transliterate env (tl_text request) (tl_source_script request)
             (tl_target_script request) w of
        ((success, transliterated_text, source_script, error_message), w') \<Rightarrow>
          (case new_TransliterationResponse env success transliterated_text
                  (or_else source_script (tl_source_script request))
                  (tl_target_script request) error_message of
             Inr response \<Rightarrow> (response, w')
           | Inl e \<Rightarrow>
               (\<lparr>tlr_success = False, tlr_transliterated_text = None,
                 tlr_source_script = tl_source_script request,
                 tlr_target_script = tl_target_script request,
                 tlr_error_message = Some (str_exn e)\<rparr>, w')))"

section \<open>Vocabulary of the properties\<close>

text \<open>\<open>s.endswith(p)\<close>\<close>

definition endswith :: "pystr \<Rightarrow> pystr \<Rightarrow> bool" where
  "endswith s p = startswith (rev s) (rev p)"

text \<open>
  A payload between Markdown fences: three backticks, a tag, a line feed, the payload,
  a line feed, three backticks.
\<close>

definition fenced :: "pystr \<Rightarrow> pystr \<Rightarrow> pystr" where
  "fenced tag p = fence @ tag @ [10] @ p @ [10] @ fence"

fun is_array :: "json \<Rightarrow> bool" where
  "is_array (JArr xs) = True"
| "is_array v = False"

text \<open>A decoded value is an object that has both keys.\<close>

fun is_object_with :: "pystr \<Rightarrow> pystr \<Rightarrow> json \<Rightarrow> bool" where
  "is_object_with k1 k2 (JObj d) = (map_of d k1 \<noteq> None \<and> map_of d k2 \<noteq> None)"
| "is_object_with k1 k2 v = False"

fun number_value :: "json \<Rightarrow> real option" where
  "number_value (JFloat x) = Some x"
| "number_value (JInt i) = Some (of_int i)"
| "number_value v = None"

text \<open>A provider and a decoder such that every call is answered with a text that
  decodes to an array of strings.\<close>

definition well_behaved :: "env \<Rightarrow> bool" where
  "well_behaved env \<longleftrightarrow>
     (\<forall>w prompt. \<exists>t ts. generate_content env w prompt = Inr t \<and>
        json_loads env (clean_response t) = Inr (JArr (map JStr ts)))"

section \<open>Examples\<close>

text \<open>
  The decoder on the texts of the examples: the JSON documents among them with the
  values \<open>json.loads\<close> gives; every other text the examples hand to the decoder starts
  with a character that begins no JSON value, and \<open>json.loads\<close> raises on it at once.
\<close>

definition example_documents :: "(pystr \<times> json) list" where
  \<open>example_documents =
     [(ascii ''["Hola", "Mundo"]'', JArr [JStr (ascii ''Hola''), JStr (ascii ''Mundo'')]),
      (ascii ''["Hola"]'', JArr [JStr (ascii ''Hola'')]),
      (ascii ''{"language": "French", "confidence": 0.75}'',
         JObj [(ascii ''language'', JStr (ascii ''French'')),
               (ascii ''confidence'', JFloat 0.75)]),
      (ascii ''{"language": "French", "confidence": 1.5}'',
         JObj [(ascii ''language'', JStr (ascii ''French'')),
               (ascii ''confidence'', JFloat 1.5)]),
      (ascii ''{"source_script": "Devanagari", "result": "namaste"}'',
         JObj [(ascii ''source_script'', JStr (ascii ''Devanagari'')),
               (ascii ''result'', JStr (ascii ''namaste''))]),
      (ascii ''{"source_script": "Devanagari", "result": ["namaste"]}'',
         JObj [(ascii ''source_script'', JStr (ascii ''Devanagari'')),
               (ascii ''result'', JArr [JStr (ascii ''namaste'')])]),
      (ascii ''{"source_script": 0, "result": "namaste"}'',
         JObj [(ascii ''source_script'', JInt 0),
               (ascii ''result'', JStr (ascii ''namaste''))]),
      (ascii ''[7]'', JArr [JInt 7])]\<close>

definition example_loads :: "pystr \<Rightarrow> exn + json" where
  "example_loads s =
     (case map_of example_documents s of
        Some v \<Rightarrow> Inr v
      | None \<Rightarrow> Inl (JSONDecodeError (ascii ''Expecting value: line 1 column 1 (char 0)'')))"

definition example_env :: "(world \<Rightarrow> pystr \<Rightarrow> exn + pystr) \<Rightarrow> env" where
  "example_env provider =
     \<lparr>generate_content = provider, json_loads = example_loads,
      validation_text = (\<lambda>v. ascii ''validation error''),
      coerce_float = (\<lambda>v. None)\<rparr>"

text \<open>Four providers: one that always answers, one that always fails, one that answers
  its first call and fails afterwards, one that fails its first call with one error and
  every later call with another.\<close>

definition answers :: "pystr \<Rightarrow> world \<Rightarrow> pystr \<Rightarrow> exn + pystr" where
  "answers t w prompt = Inr t"

definition raises :: "exn \<Rightarrow> world \<Rightarrow> pystr \<Rightarrow> exn + pystr" where
  "raises e w prompt = Inl e"

definition answers_once :: "pystr \<Rightarrow> exn \<Rightarrow> world \<Rightarrow> pystr \<Rightarrow> exn + pystr" where
  "answers_once t e w prompt = (if w = [] then Inr t else Inl e)"

definition raises_then :: "exn \<Rightarrow> exn \<Rightarrow> world \<Rightarrow> pystr \<Rightarrow> exn + pystr" where
  "raises_then e1 e2 w prompt = (if w = [] then Inl e1 else Inl e2)"

definition hello_world :: "SubtitleCue list" where
  "hello_world = [\<lparr>cue_id = ascii ''1'', cue_text = ascii ''Hello''\<rparr>,
                  \<lparr>cue_id = ascii ''2'', cue_text = ascii ''World''\<rparr>]"

definition hola_mundo :: "TranslatedCue list" where
  "hola_mundo =
     [\<lparr>tc_id = ascii ''1'', tc_text = ascii ''Hello'', translated_text = ascii ''Hola''\<rparr>,
      \<lparr>tc_id = ascii ''2'', tc_text = ascii ''World'', translated_text = ascii ''Mundo''\<rparr>]"

definition namaste_request :: TransliterationRequest where
  "namaste_request =
     \<lparr>tl_text = [2344, 2350, 2360, 2381, 2340, 2375], tl_source_script = ascii ''Auto-detect'',
      tl_target_script = ascii ''Latin''\<rparr>"

section \<open>Properties of the subtitle pipeline\<close>

lemma new_TranslatedCue_fields:
  "new_TranslatedCue env i t tr = Inr tc \<Longrightarrow> tc_id tc = i \<and> tc_text tc = t"
  by (auto simp: new_TranslatedCue_def split: sum.splits)

lemma build_result_fields:
  "build_result env idx cues tts acc = Inr out \<Longrightarrow>
     map tc_id out = map tc_id acc @ map cue_id cues \<and>
     map tc_text out = map tc_text acc @ map cue_text cues"
proof (induction cues arbitrary: idx acc)
  case Nil
  then show ?case by simp
next
  case (Cons cue cues)
  then show ?case
    by (auto simp: Let_def split: sum.splits dest!: new_TranslatedCue_fields)
qed

lemma translate_batch_fields:
  "translate_batch env cues s t w = (Inr out, w') \<Longrightarrow>
     map tc_id out = map cue_id cues \<and> map tc_text out = map cue_text cues"
  by (auto simp: translate_batch_def Let_def split: prod.splits sum.splits dest!: build_result_fields)

lemma retry_attempts_fields:
  "retry_attempts env atts le cues s t w = (Inr out, w') \<Longrightarrow>
     map tc_id out = map cue_id cues \<and> map tc_text out = map cue_text cues"
proof (induction atts arbitrary: le w)
  case Nil
  then show ?case by simp
next
  case (Cons a atts)
  then show ?case
    by (auto simp: Let_def split: prod.splits sum.splits if_splits dest!: translate_batch_fields)
qed

lemma translate_batches_fields:
  "translate_batches env batches s t acc w = (Inr out, w') \<Longrightarrow>
     map tc_id out = map tc_id acc @ map cue_id (concat batches) \<and>
     map tc_text out = map tc_text acc @ map cue_text (concat batches)"
proof (induction batches arbitrary: acc w)
  case Nil
  then show ?case by simp
next
  case (Cons b batches)
  then show ?case
    by (auto simp: translate_batch_with_retry_def retry_upto_def split: prod.splits sum.splits dest!: retry_attempts_fields)
qed

lemma concat_chunks:
  "concat (map (\<lambda>i. take n (drop i xs)) (map (\<lambda>k. k * n) [0..<m])) = take (m * n) xs"
proof (induction m)
  case 0
  then show ?case by simp
next
  case (Suc m)
  have "take (m * n) xs @ take n (drop (m * n) xs) = take (m * n + n) xs"
    by (simp add: take_add)
  with Suc show ?case by (simp add: add.commute)
qed

lemma make_batches_concat:
  assumes "0 < batch_size" and "make_batches cues batch_size = Inr batches"
  shows "concat batches = cues"
proof -
  let ?n = "nat batch_size"
  have pos: "0 < ?n" using assms(1) by simp
  have "length cues \<le> ((length cues + ?n - 1) div ?n) * ?n"
  proof -
    have "length cues + ?n - 1 < ((length cues + ?n - 1) div ?n) * ?n + ?n"
      using pos by (metis add.commute div_mult_mod_eq mod_less_divisor nat_add_left_cancel_less mult.commute)
    then show ?thesis using pos by linarith
  qed
  then have "take (((length cues + ?n - 1) div ?n) * ?n) cues = cues" by simp
  then have "concat (map (\<lambda>i. take ?n (drop i cues)) (range_step (length cues) ?n)) = cues"
    unfolding range_step_def by (simp only: concat_chunks)
  moreover have "batches = map (\<lambda>i. take ?n (drop i cues)) (range_step (length cues) ?n)"
    using assms by (simp add: make_batches_def split: if_splits)
  ultimately show ?thesis by simp
qed

text \<open>
  C1. Whenever \<open>translate_subtitles\<close> returns a list, for a positive batch size (so for
  every batch size from 1 to 100) and any list of cues (so for every non-empty one), the
  list is as long as the input and carries, position by position, the ids and the texts
  of the input cues: the batches are put back in their original order.
\<close>
theorem translate_subtitles_preserves_cues:
  assumes "0 < batch_size"
    and "translate_subtitles env cues source_language target_language batch_size w = (Inr out, w')"
  shows "length out = length cues \<and> map tc_id out = map cue_id cues \<and>
         map tc_text out = map cue_text cues"
proof -
  from assms(2) obtain batches where b: "make_batches cues batch_size = Inr batches"
    and t: "translate_batches env batches source_language target_language [] w = (Inr out, w')"
    by (auto simp: translate_subtitles_def split: sum.splits)
  have c: "concat batches = cues" using make_batches_concat[OF assms(1) b] .
  from translate_batches_fields[OF t] c
  have m: "map tc_id out = map cue_id cues \<and> map tc_text out = map cue_text cues" by simp
  then have "length (map tc_id out) = length (map cue_id cues)" by simp
  then have "length out = length cues" by simp
  with m show ?thesis by simp
qed

lemma translate_batch_world:
  "snd (translate_batch env cues s t w) =
     w @ [Generate (build_prompt (map cue_text cues) s t)]"
  by (simp add: translate_batch_def generate_def Let_def split: sum.splits)

text \<open>
  C3. With \<open>MAX_RETRIES = 3\<close>: when the first attempt fails with a retryable error, the
  second, made after a sleep of 2, fails with a retryable error, and the third, made
  after a sleep of 4, fails with a retryable error, the retry wrapper raises the error
  of the third attempt, and what happened is exactly: call, sleep 2, call, sleep 4, call.
\<close>
theorem retry_three_attempts_two_sleeps:
  assumes "translate_batch env cues s t w = (Inl e1, w1)" and "\<not> non_retryable e1"
    and "translate_batch env cues s t (sleep 2 w1) = (Inl e2, w2)" and "\<not> non_retryable e2"
    and "translate_batch env cues s t (sleep 4 w2) = (Inl e3, w3)" and "\<not> non_retryable e3"
  shows "translate_batch_with_retry env cues s t w = (Inl e3, w3) \<and>
         w3 = w @ [Generate (build_prompt (map cue_text cues) s t), Sleep 2,
                   Generate (build_prompt (map cue_text cues) s t), Sleep 4,
                   Generate (build_prompt (map cue_text cues) s t)]"
proof -
  have u: "[0..<MAX_RETRIES] = [0, 1, 2]"
    by (simp add: MAX_RETRIES_def upt_rec numeral_3_eq_3)
  have r: "translate_batch_with_retry env cues s t w = (Inl e3, w3)"
    using assms by (simp add: translate_batch_with_retry_def retry_upto_def u)
  have "w1 = w @ [Generate (build_prompt (map cue_text cues) s t)]"
    using translate_batch_world[of env cues s t w] assms(1) by simp
  moreover have "w2 = sleep 2 w1 @ [Generate (build_prompt (map cue_text cues) s t)]"
    using translate_batch_world[of env cues s t "sleep 2 w1"] assms(3) by simp
  moreover have "w3 = sleep 4 w2 @ [Generate (build_prompt (map cue_text cues) s t)]"
    using translate_batch_world[of env cues s t "sleep 4 w2"] assms(5) by simp
  ultimately have "w3 = w @ [Generate (build_prompt (map cue_text cues) s t), Sleep 2,
                   Generate (build_prompt (map cue_text cues) s t), Sleep 4,
                   Generate (build_prompt (map cue_text cues) s t)]"
    by (simp add: sleep_def)
  with r show ?thesis by simp
qed

lemma retry_attempts_exhausted_prefix:
  assumes "pre \<noteq> []"
    and "retry_attempts env pre le cues s t w = (Inl e', w')"
    and "\<not> non_retryable e'"
  shows "retry_attempts env (pre @ rest) le cues s t w =
         retry_attempts env rest (Some e') cues s t w'"
  using assms
proof (induction pre arbitrary: le w)
  case Nil
  then show ?case by simp
next
  case (Cons a pre)
  let ?w1 = "if 0 < a then sleep (2 ^ a) w else w"
  obtain r w2 where tb: "translate_batch env cues s t ?w1 = (r, w2)"
    by (cases "translate_batch env cues s t ?w1") auto
  show ?case
  proof (cases r)
    case (Inr out)
    with tb Cons.prems(2) show ?thesis by simp
  next
    case (Inl e)
    show ?thesis
    proof (cases "non_retryable e")
      case True
      with tb Inl Cons.prems(2,3) show ?thesis by auto
    next
      case False
      with tb Inl Cons.prems(2)
      have rest': "retry_attempts env pre (Some e) cues s t w2 = (Inl e', w')" by simp
      show ?thesis
      proof (cases "pre = []")
        case True
        with rest' have "e' = e" and "w' = w2" by simp_all
        with tb Inl False True show ?thesis by simp
      next
        case False
        from Cons.IH[OF False rest' Cons.prems(3)] tb Inl \<open>\<not> non_retryable e\<close>
        show ?thesis by simp
      qed
    qed
  qed
qed

lemma retry_attempts_marker:
  assumes "translate_batch env cues s t (if 0 < k then sleep (2 ^ k) w else w) = (Inl e, w1)"
    and "non_retryable e"
  shows "retry_attempts env (k # rest) le cues s t w = (Inl e, w1)"
  using assms by simp

text \<open>
  C4. Whatever the maximum number of attempts and whichever attempt it is: when the
  attempts made so far, if any, have all failed with errors that carry no marker (which
  is what a retry wrapper with that many attempts ending in such an error says, and holds
  of itself when none was made), and the next attempt, made after its sleep if it is not
  the first, fails with an error whose message contains \<open>API key\<close> or \<open>quota\<close>, the retry
  wrapper raises that error, and the call of that attempt is the last thing that
  happened: no further attempt and no further sleep. At the first attempt this is exactly
  one call of the provider and no sleep.
\<close>

theorem auth_or_quota_error_is_not_retried:
  assumes "k < max_retries"
    and "retry_upto k env cues s t w = (Inl e', wk)" and "\<not> non_retryable e'"
    and "translate_batch env cues s t (if 0 < k then sleep (2 ^ k) wk else wk) = (Inl e, w1)"
    and "str_in (ascii ''API key'') (str_exn e) \<or> str_in (ascii ''quota'') (str_exn e)"
  shows "retry_upto max_retries env cues s t w = (Inl e, w1) \<and>
         w1 = (if 0 < k then sleep (2 ^ k) wk else wk) @
                [Generate (build_prompt (map cue_text cues) s t)]"
proof -
  have m: "non_retryable e" using assms(5) by (simp add: non_retryable_def)
  have u: "[0..<max_retries] = [0..<k] @ k # [Suc k..<max_retries]"
  proof -
    have "[0..<k + (max_retries - k)] = [0..<k] @ [k..<k + (max_retries - k)]"
      by (rule upt_add_eq_append) simp
    moreover have "k + (max_retries - k) = max_retries" using assms(1) by simp
    moreover have "[k..<max_retries] = k # [Suc k..<max_retries]"
      using assms(1) by (rule upt_conv_Cons)
    ultimately show ?thesis by simp
  qed
  have r: "retry_upto max_retries env cues s t w = (Inl e, w1)"
  proof (cases "k = 0")
    case True
    then have "wk = w" using assms(2) by (simp add: retry_upto_def)
    with True assms(4) m show ?thesis
      using u by (simp add: retry_upto_def)
  next
    case False
    then have ne: "[0..<k] \<noteq> []" by simp
    from assms(2) have p: "retry_attempts env [0..<k] None cues s t w = (Inl e', wk)"
      by (simp add: retry_upto_def)
    have "retry_upto max_retries env cues s t w =
          retry_attempts env (k # [Suc k..<max_retries]) (Some e') cues s t wk"
      unfolding retry_upto_def u
      using retry_attempts_exhausted_prefix[OF ne p assms(3)] .
    also have "\<dots> = (Inl e, w1)"
      using retry_attempts_marker[OF assms(4) m] .
    finally show ?thesis .
  qed
  have "snd (translate_batch env cues s t (if 0 < k then sleep (2 ^ k) wk else wk)) =
        (if 0 < k then sleep (2 ^ k) wk else wk) @
          [Generate (build_prompt (map cue_text cues) s t)]"
    by (rule translate_batch_world)
  with assms(4) r show ?thesis by simp
qed

text \<open>
  How the attempts made so far are described: with no attempt allowed the wrapper raises
  its \<open>RuntimeError\<close>, which carries no marker, and nothing has happened; and when \<open>k\<close>
  attempts have ended in an error without marker and the next attempt fails with an error
  without marker, so have \<open>k + 1\<close> attempts.
\<close>

lemma retry_upto_no_attempt:
  "retry_upto 0 env cues s t w =
     (Inl (RuntimeError (ascii ''Translation failed after retries'')), w) \<and>
   \<not> non_retryable (RuntimeError (ascii ''Translation failed after retries''))"
  by (simp add: retry_upto_def non_retryable_def ascii_def)

lemma retry_upto_one_more:
  assumes "retry_upto k env cues s t w = (Inl e', wk)" and "\<not> non_retryable e'"
    and "translate_batch env cues s t (if 0 < k then sleep (2 ^ k) wk else wk) = (Inl e, w1)"
    and "\<not> non_retryable e"
  shows "retry_upto (Suc k) env cues s t w = (Inl e, w1)"
proof (cases "k = 0")
  case True
  then have "wk = w" using assms(1) by (simp add: retry_upto_def)
  with True assms(3,4) show ?thesis by (simp add: retry_upto_def)
next
  case False
  then have ne: "[0..<k] \<noteq> []" by simp
  from assms(1) have p: "retry_attempts env [0..<k] None cues s t w = (Inl e', wk)"
    by (simp add: retry_upto_def)
  have "retry_upto (Suc k) env cues s t w = retry_attempts env ([0..<k] @ [k]) None cues s t w"
    by (simp add: retry_upto_def)
  also have "\<dots> = retry_attempts env [k] (Some e') cues s t wk"
    using retry_attempts_exhausted_prefix[OF ne p assms(2)] .
  also have "\<dots> = (Inl e, w1)"
    using assms(3,4) by simp
  finally show ?thesis .
qed

lemma translate_batches_append:
  "translate_batches env pre s t acc w = (Inr done, w1) \<Longrightarrow>
   translate_batches env (pre @ rest) s t acc w = translate_batches env rest s t done w1"
proof (induction pre arbitrary: acc w)
  case Nil
  then show ?case by simp
next
  case (Cons b pre)
  then show ?case by (auto split: prod.splits sum.splits)
qed

text \<open>
  C7. When the batches before some batch have been translated and the retry wrapper
  fails on that batch, the endpoint answers \<open>success = False\<close> with the message of the
  error and an empty list of translated cues: what the earlier batches produced is not
  returned.
\<close>
theorem failed_batch_fails_whole_request:
  assumes "make_batches (req_cues request) (req_batch_size request) = Inr (pre @ batch # post)"
    and "translate_batches env pre (req_source_language request) (req_target_language request) [] w
           = (Inr done, w1)"
    and "translate_batch_with_retry env batch (req_source_language request)
           (req_target_language request) w1 = (Inl e, w2)"
  shows "translate_subtitles_endpoint env request w =
           (\<lparr>st_success = False, st_translated_cues = [],
             st_error_message = Some (str_exn e)\<rparr>, w2)"
proof -
  have "translate_batches env (pre @ batch # post) (req_source_language request)
          (req_target_language request) [] w = (Inl e, w2)"
    using translate_batches_append[OF assms(2)] assms(3) by simp
  then show ?thesis
    using assms(1) by (simp add: translate_subtitles_endpoint_def translate_subtitles_def)
qed

lemma build_result_general:
  assumes "\<forall>i<length cues. idx + i < length tts \<longrightarrow> (\<exists>s. tts ! (idx + i) = JStr s)"
  shows "\<exists>out. build_result env idx cues tts acc = Inr (acc @ out) \<and> length out = length cues \<and>
           (\<forall>i<length cues.
              tc_id (out ! i) = cue_id (cues ! i) \<and> tc_text (out ! i) = cue_text (cues ! i) \<and>
              (if idx + i < length tts then JStr (translated_text (out ! i)) = tts ! (idx + i)
               else translated_text (out ! i) = cue_text (cues ! i)))"
  using assms
proof (induction cues arbitrary: idx acc)
  case Nil
  then show ?case by simp
next
  case (Cons cue cues)
  define tr where "tr = (if idx < length tts then tts ! idx else JStr (cue_text cue))"
  have "\<exists>s. tr = JStr s"
    using Cons.prems[rule_format, of 0] by (auto simp: tr_def)
  then obtain s where s: "tr = JStr s" by blast
  define tc where "tc = \<lparr>tc_id = cue_id cue, tc_text = cue_text cue, translated_text = s\<rparr>"
  have step: "build_result env idx (cue # cues) tts acc =
              build_result env (Suc idx) cues tts (acc @ [tc])"
    using s by (simp add: tr_def[symmetric] new_TranslatedCue_def tc_def)
  have "\<forall>i<length cues. Suc idx + i < length tts \<longrightarrow> (\<exists>s. tts ! (Suc idx + i) = JStr s)"
    using Cons.prems by (metis add_Suc_shift length_Cons not_less_eq not_less_iff_gr_or_eq)
  from Cons.IH[OF this, of "acc @ [tc]"]
  obtain out where out: "build_result env (Suc idx) cues tts (acc @ [tc]) = Inr ((acc @ [tc]) @ out)"
    "length out = length cues"
    "\<forall>i<length cues.
              tc_id (out ! i) = cue_id (cues ! i) \<and> tc_text (out ! i) = cue_text (cues ! i) \<and>
              (if Suc idx + i < length tts then JStr (translated_text (out ! i)) = tts ! (Suc idx + i)
               else translated_text (out ! i) = cue_text (cues ! i))"
    by blast
  have hd: "(if idx < length tts then JStr s = tts ! idx else s = cue_text cue)"
    using s by (auto simp: tr_def split: if_splits)
  have "\<forall>i<length (cue # cues).
              tc_id ((tc # out) ! i) = cue_id ((cue # cues) ! i) \<and>
              tc_text ((tc # out) ! i) = cue_text ((cue # cues) ! i) \<and>
              (if idx + i < length tts then JStr (translated_text ((tc # out) ! i)) = tts ! (idx + i)
               else translated_text ((tc # out) ! i) = cue_text ((cue # cues) ! i))"
  proof (intro allI impI)
    fix i assume "i < length (cue # cues)"
    show "tc_id ((tc # out) ! i) = cue_id ((cue # cues) ! i) \<and>
              tc_text ((tc # out) ! i) = cue_text ((cue # cues) ! i) \<and>
              (if idx + i < length tts then JStr (translated_text ((tc # out) ! i)) = tts ! (idx + i)
               else translated_text ((tc # out) ! i) = cue_text ((cue # cues) ! i))"
    proof (cases i)
      case 0
      then show ?thesis using hd by (simp add: tc_def)
    next
      case (Suc j)
      then have "j < length cues" using \<open>i < length (cue # cues)\<close> by simp
      with out(3) Suc show ?thesis by simp
    qed
  qed
  then show ?case
    using step out(1,2) by (intro exI[of _ "tc # out"]) simp
qed

lemma build_result_ignores_extra:
  "idx + length cues \<le> length tts \<Longrightarrow>
   build_result env idx cues (tts @ extra) acc = build_result env idx cues tts acc"
proof (induction cues arbitrary: idx acc)
  case Nil
  then show ?case by simp
next
  case (Cons cue cues)
  then have "idx < length tts" and "Suc idx + length cues \<le> length tts" by simp_all
  with Cons.IH show ?case by (simp add: nth_append split: sum.splits)
qed

lemma str_field_not_string:
  "\<forall>s. v \<noteq> JStr s \<Longrightarrow> str_field env v = Inl (ValidationError (validation_text env v))"
  by (cases v) simp_all

lemma build_result_fails:
  assumes "\<exists>i<length cues. idx + i < length tts \<and> (\<forall>s. tts ! (idx + i) \<noteq> JStr s)"
  shows "\<exists>m. build_result env idx cues tts acc = Inl (ValidationError m)"
  using assms
proof (induction cues arbitrary: idx acc)
  case Nil
  then show ?case by simp
next
  case (Cons cue cues)
  define tr where "tr = (if idx < length tts then tts ! idx else JStr (cue_text cue))"
  show ?case
  proof (cases "\<exists>s. tr = JStr s")
    case False
    then have "str_field env tr = Inl (ValidationError (validation_text env tr))"
      using str_field_not_string[of tr env] by blast
    then show ?thesis
      by (simp add: tr_def[symmetric] new_TranslatedCue_def)
  next
    case True
    then obtain s where s: "tr = JStr s" by blast
    have step: "build_result env idx (cue # cues) tts acc =
                build_result env (Suc idx) cues tts
                  (acc @ [\<lparr>tc_id = cue_id cue, tc_text = cue_text cue, translated_text = s\<rparr>])"
      using s by (simp add: tr_def[symmetric] new_TranslatedCue_def)
    from Cons.prems obtain i where i: "i < length (cue # cues)" "idx + i < length tts"
      "\<forall>s. tts ! (idx + i) \<noteq> JStr s" by blast
    have "i \<noteq> 0"
    proof
      assume "i = 0"
      with i(2,3) s show False by (simp add: tr_def)
    qed
    then obtain j where j: "i = Suc j" by (cases i) auto
    with i have "j < length cues \<and> Suc idx + j < length tts \<and>
                 (\<forall>s. tts ! (Suc idx + j) \<noteq> JStr s)" by simp
    then have "\<exists>i<length cues. Suc idx + i < length tts \<and> (\<forall>s. tts ! (Suc idx + i) \<noteq> JStr s)"
      by blast
    from Cons.IH[OF this] step show ?thesis by simp
  qed
qed

text \<open>
  C2, as amended. The loop that builds the result of a batch from the parsed array reads
  the entries at the indices of the cues and no other. When the entries it reads are
  strings, it does not fail: the result has one translated cue per cue, with the cue's id
  and text; a cue whose index is below the length of the array gets the entry at that
  index, and a cue at an index beyond the array gets its own original text. When an entry
  it reads is not a string, the batch fails with a validation error. Entries beyond the
  length of the batch are ignored: appending any values to an array at least as long as
  the batch changes nothing.
\<close>

theorem short_array_falls_back_long_array_ignored:
  "((\<forall>i<length cues. i < length tts \<longrightarrow> (\<exists>s. tts ! i = JStr s)) \<longrightarrow>
      (\<exists>out. build_result env 0 cues tts [] = Inr out \<and> length out = length cues \<and>
         (\<forall>i<length cues.
            tc_id (out ! i) = cue_id (cues ! i) \<and> tc_text (out ! i) = cue_text (cues ! i) \<and>
            (if i < length tts then JStr (translated_text (out ! i)) = tts ! i
             else translated_text (out ! i) = cue_text (cues ! i))))) \<and>
   ((\<exists>i<length cues. i < length tts \<and> (\<forall>s. tts ! i \<noteq> JStr s)) \<longrightarrow>
      (\<exists>m. build_result env 0 cues tts [] = Inl (ValidationError m))) \<and>
   (length cues \<le> length tts \<longrightarrow>
      build_result env 0 cues (tts @ extra) [] = build_result env 0 cues tts [])"
proof (intro conjI impI)
  assume a: "\<forall>i<length cues. i < length tts \<longrightarrow> (\<exists>s. tts ! i = JStr s)"
  then have "\<forall>i<length cues. 0 + i < length tts \<longrightarrow> (\<exists>s. tts ! (0 + i) = JStr s)"
    by simp
  from build_result_general[OF this, of env "[]"]
  show "\<exists>out. build_result env 0 cues tts [] = Inr out \<and> length out = length cues \<and>
           (\<forall>i<length cues.
              tc_id (out ! i) = cue_id (cues ! i) \<and> tc_text (out ! i) = cue_text (cues ! i) \<and>
              (if i < length tts then JStr (translated_text (out ! i)) = tts ! i
               else translated_text (out ! i) = cue_text (cues ! i)))"
    by (simp only: add_0 append_Nil)
next
  assume "\<exists>i<length cues. i < length tts \<and> (\<forall>s. tts ! i \<noteq> JStr s)"
  then have "\<exists>i<length cues. 0 + i < length tts \<and> (\<forall>s. tts ! (0 + i) \<noteq> JStr s)"
    by simp
  from build_result_fails[OF this]
  show "\<exists>m. build_result env 0 cues tts [] = Inl (ValidationError m)" .
next
  assume "length cues \<le> length tts"
  then show "build_result env 0 cues (tts @ extra) [] = build_result env 0 cues tts []"
    using build_result_ignores_extra[of 0 cues tts env extra "[]"] by simp
qed

lemma clean_hola_mundo:
  \<open>clean_response (ascii ''["Hola", "Mundo"]'') = ascii ''["Hola", "Mundo"]''\<close>
  by (simp add: clean_response_def strip_def lstrip_def rstrip_def sub_leading_fence_def
      fence_def fence_to_end_def ascii_def isspace_def)

lemma clean_hola:
  \<open>clean_response (ascii ''["Hola"]'') = ascii ''["Hola"]''\<close>
  by (simp add: clean_response_def strip_def lstrip_def rstrip_def sub_leading_fence_def
      fence_def fence_to_end_def ascii_def isspace_def)

theorem translate_subtitles_preserves_cues_witness:
  \<open>fst (translate_subtitles (example_env (answers (ascii ''["Hola", "Mundo"]''))) hello_world
          (ascii ''English'') (ascii ''Spanish'') 25 []) = Inr hola_mundo \<and>
    length hola_mundo = length hello_world \<and>
    map tc_id hola_mundo = map cue_id hello_world \<and>
    map tc_text hola_mundo = map cue_text hello_world\<close>
proof -
  let ?run = \<open>translate_subtitles (example_env (answers (ascii ''["Hola", "Mundo"]'')))
                hello_world (ascii ''English'') (ascii ''Spanish'') 25 []\<close>
  have f: "fst ?run = Inr hola_mundo"
    by (simp add: translate_subtitles_def make_batches_def range_step_def
        translate_batch_with_retry_def retry_upto_def MAX_RETRIES_def upt_rec hello_world_def
        hola_mundo_def translate_batch_def generate_def example_env_def answers_def
        subtitle_parse_response_def clean_hola_mundo example_loads_def example_documents_def
        new_TranslatedCue_def)
  then have h: "?run = (Inr hola_mundo, snd ?run)"
    by (simp add: prod_eq_iff)
  have p: "(0::int) < 25" by simp
  from translate_subtitles_preserves_cues[OF p h] f show ?thesis by simp
qed

theorem short_array_falls_back_long_array_ignored_witness:
  \<open>build_result (example_env (answers [])) 0 hello_world [JStr (ascii ''Hola'')] [] =
     Inr [\<lparr>tc_id = ascii ''1'', tc_text = ascii ''Hello'', translated_text = ascii ''Hola''\<rparr>,
          \<lparr>tc_id = ascii ''2'', tc_text = ascii ''World'', translated_text = ascii ''World''\<rparr>] \<and>
    build_result (example_env (answers [])) 0 hello_world
       ([JStr (ascii ''Hola''), JStr (ascii ''Mundo'')] @ [JInt 7]) [] = Inr hola_mundo \<and>
    (\<exists>m. build_result (example_env (answers [])) 0 hello_world
            [JStr (ascii ''Hola''), JNull] [] = Inl (ValidationError m))\<close>
proof -
  let ?env = "example_env (answers [])"
  have a: "\<forall>i<length hello_world. i < length [JStr (ascii ''Hola'')] \<longrightarrow>
             (\<exists>s. [JStr (ascii ''Hola'')] ! i = JStr s)"
    by (simp add: hello_world_def)
  have b: "\<exists>i<length hello_world. i < length [JStr (ascii ''Hola''), JNull] \<and>
             (\<forall>s. [JStr (ascii ''Hola''), JNull] ! i \<noteq> JStr s)"
    by (rule exI[of _ 1]) (simp add: hello_world_def)
  have c: "length hello_world \<le> length [JStr (ascii ''Hola''), JStr (ascii ''Mundo'')]"
    by (simp add: hello_world_def)
  have d: "build_result ?env 0 hello_world [JStr (ascii ''Hola''), JStr (ascii ''Mundo'')] [] =
           Inr hola_mundo"
    by (simp add: hello_world_def hola_mundo_def new_TranslatedCue_def)
  have e: "build_result ?env 0 hello_world [JStr (ascii ''Hola'')] [] =
     Inr [\<lparr>tc_id = ascii ''1'', tc_text = ascii ''Hello'', translated_text = ascii ''Hola''\<rparr>,
          \<lparr>tc_id = ascii ''2'', tc_text = ascii ''World'', translated_text = ascii ''World''\<rparr>]"
    using short_array_falls_back_long_array_ignored[of hello_world "[JStr (ascii ''Hola'')]" ?env "[]"] a
    by (simp add: hello_world_def new_TranslatedCue_def)
  have f: "\<exists>m. build_result ?env 0 hello_world [JStr (ascii ''Hola''), JNull] [] =
             Inl (ValidationError m)"
    using short_array_falls_back_long_array_ignored[of hello_world "[JStr (ascii ''Hola''), JNull]" ?env "[]"] b
    by blast
  have g: "build_result ?env 0 hello_world
             ([JStr (ascii ''Hola''), JStr (ascii ''Mundo'')] @ [JInt 7]) [] = Inr hola_mundo"
    using short_array_falls_back_long_array_ignored[of hello_world "[JStr (ascii ''Hola''), JStr (ascii ''Mundo'')]" ?env
        "[JInt 7]"] c d
    by simp
  from e f g show ?thesis by blast
qed

lemma clean_seven: "clean_response (ascii ''[7]'') = ascii ''[7]''"
  by (simp add: clean_response_def strip_def lstrip_def rstrip_def sub_leading_fence_def
      fence_def fence_to_end_def ascii_def isspace_def)

text \<open>
  C2 as stated fails on a parsed array whose entry is not a string: the parser returns
  the array \<open>[7]\<close> for the response \<open>[7]\<close>, the array is shorter than the batch of two cues,
  and the batch fails with a validation error instead of falling back.
\<close>

theorem short_array_of_non_strings_fails_counterexample:
  "subtitle_parse_response (example_env (answers [])) (ascii ''[7]'') = Inr [JInt 7] \<and>
   length [JInt 7] < length hello_world \<and>
   build_result (example_env (answers [])) 0 hello_world [JInt 7] [] =
     Inl (ValidationError (ascii ''validation error'')) \<and>
   fst (translate_batch (example_env (answers (ascii ''[7]''))) hello_world
          (ascii ''English'') (ascii ''Spanish'') []) =
     Inl (ValidationError (ascii ''validation error''))"
proof -
  have l: "example_loads (ascii ''[7]'') = Inr (JArr [JInt 7])"
    by (simp add: example_loads_def example_documents_def ascii_def)
  show ?thesis
    by (simp add: subtitle_parse_response_def clean_seven l example_env_def hello_world_def
        new_TranslatedCue_def translate_batch_def generate_def answers_def)
qed

theorem retry_three_attempts_two_sleeps_witness:
  "translate_batch_with_retry (example_env (raises (UpstreamError (ascii ''503 unavailable''))))
       hello_world (ascii ''English'') (ascii ''Spanish'') [] =
     (Inl (UpstreamError (ascii ''503 unavailable'')),
      [Generate (build_prompt (map cue_text hello_world) (ascii ''English'') (ascii ''Spanish'')),
       Sleep 2,
       Generate (build_prompt (map cue_text hello_world) (ascii ''English'') (ascii ''Spanish'')),
       Sleep 4,
       Generate (build_prompt (map cue_text hello_world) (ascii ''English'') (ascii ''Spanish''))])"
proof -
  let ?env = "example_env (raises (UpstreamError (ascii ''503 unavailable'')))"
  let ?e = "UpstreamError (ascii ''503 unavailable'')"
  let ?tb = "translate_batch ?env hello_world (ascii ''English'') (ascii ''Spanish'')"
  have fails: "?tb w = (Inl ?e, snd (?tb w))" for w
    by (simp add: translate_batch_def generate_def example_env_def raises_def)
  have r: "\<not> non_retryable ?e"
    by (simp add: non_retryable_def ascii_def)
  from retry_three_attempts_two_sleeps[OF fails r fails r fails r, of "[]"]
  show ?thesis by simp
qed

theorem auth_or_quota_error_is_not_retried_witness:
  "retry_upto 3 (example_env (raises (UpstreamError (ascii ''429 quota exceeded''))))
       hello_world (ascii ''English'') (ascii ''Spanish'') [] =
     (Inl (UpstreamError (ascii ''429 quota exceeded'')),
      [Generate (build_prompt (map cue_text hello_world) (ascii ''English'') (ascii ''Spanish''))]) \<and>
   retry_upto 3 (example_env (raises_then (UpstreamError (ascii ''503 unavailable''))
                                (UpstreamError (ascii ''invalid API key''))))
       hello_world (ascii ''English'') (ascii ''Spanish'') [] =
     (Inl (UpstreamError (ascii ''invalid API key'')),
      [Generate (build_prompt (map cue_text hello_world) (ascii ''English'') (ascii ''Spanish'')),
       Sleep 2,
       Generate (build_prompt (map cue_text hello_world) (ascii ''English'') (ascii ''Spanish''))])"
proof -
  let ?q = "UpstreamError (ascii ''429 quota exceeded'')"
  let ?u = "UpstreamError (ascii ''503 unavailable'')"
  let ?a = "UpstreamError (ascii ''invalid API key'')"
  let ?env1 = "example_env (raises ?q)"
  let ?env2 = "example_env (raises_then ?u ?a)"
  let ?p = "build_prompt (map cue_text hello_world) (ascii ''English'') (ascii ''Spanish'')"
  let ?r = "RuntimeError (ascii ''Translation failed after retries'')"
  have nr: "\<not> non_retryable ?r" by (simp add: non_retryable_def ascii_def)
  have nu: "\<not> non_retryable ?u" by (simp add: non_retryable_def ascii_def)
  have mq: "str_in (ascii ''API key'') (str_exn ?q) \<or> str_in (ascii ''quota'') (str_exn ?q)"
    by (simp add: ascii_def)
  have ma: "str_in (ascii ''API key'') (str_exn ?a) \<or> str_in (ascii ''quota'') (str_exn ?a)"
    by (simp add: ascii_def)
  have z1: "retry_upto 0 ?env1 hello_world (ascii ''English'') (ascii ''Spanish'') [] = (Inl ?r, [])"
    by (simp add: retry_upto_def)
  have t1: "translate_batch ?env1 hello_world (ascii ''English'') (ascii ''Spanish'')
              (if 0 < (0::nat) then sleep (2 ^ 0) [] else []) = (Inl ?q, [Generate ?p])"
    by (simp add: translate_batch_def generate_def example_env_def raises_def)
  have k0: "(0::nat) < 3" by simp
  have one: "retry_upto 3 ?env1 hello_world (ascii ''English'') (ascii ''Spanish'') [] =
               (Inl ?q, [Generate ?p])"
    using auth_or_quota_error_is_not_retried[OF k0 z1 nr t1 mq] by simp
  have z2: "retry_upto 1 ?env2 hello_world (ascii ''English'') (ascii ''Spanish'') [] =
              (Inl ?u, [Generate ?p])"
    using nu by (simp add: retry_upto_def translate_batch_def generate_def example_env_def
        raises_then_def)
  have t2: "translate_batch ?env2 hello_world (ascii ''English'') (ascii ''Spanish'')
              (if 0 < (1::nat) then sleep (2 ^ 1) [Generate ?p] else [Generate ?p]) =
            (Inl ?a, [Generate ?p, Sleep 2, Generate ?p])"
    by (simp add: translate_batch_def generate_def example_env_def raises_then_def sleep_def)
  have k1: "(1::nat) < 3" by simp
  have two: "retry_upto 3 ?env2 hello_world (ascii ''English'') (ascii ''Spanish'') [] =
               (Inl ?a, [Generate ?p, Sleep 2, Generate ?p])"
    using auth_or_quota_error_is_not_retried[OF k1 z2 nu t2 ma] by simp
  from one two show ?thesis by simp
qed

theorem failed_batch_fails_whole_request_witness:
  \<open>fst (translate_subtitles_endpoint
          (example_env (answers_once (ascii ''["Hola"]'')
             (UpstreamError (ascii ''429 quota exceeded''))))
          \<lparr>req_cues = hello_world, req_source_language = ascii ''English'',
           req_target_language = ascii ''Spanish'', req_batch_size = 1\<rparr> []) =
     \<lparr>st_success = False, st_translated_cues = [],
      st_error_message = Some (ascii ''429 quota exceeded'')\<rparr>\<close>
proof -
  let ?e = "UpstreamError (ascii ''429 quota exceeded'')"
  let ?env = \<open>example_env (answers_once (ascii ''["Hola"]'') ?e)\<close>
  let ?c1 = "\<lparr>cue_id = ascii ''1'', cue_text = ascii ''Hello''\<rparr>"
  let ?c2 = "\<lparr>cue_id = ascii ''2'', cue_text = ascii ''World''\<rparr>"
  let ?req = "\<lparr>req_cues = hello_world, req_source_language = ascii ''English'',
           req_target_language = ascii ''Spanish'', req_batch_size = 1\<rparr>"
  let ?w1 = "[Generate (build_prompt [ascii ''Hello''] (ascii ''English'') (ascii ''Spanish''))]"
  let ?w2 = "?w1 @ [Generate (build_prompt [ascii ''World''] (ascii ''English'') (ascii ''Spanish''))]"
  have b: "make_batches (req_cues ?req) (req_batch_size ?req) = Inr ([[?c1]] @ [?c2] # [])"
    by (simp add: make_batches_def range_step_def hello_world_def upt_rec)
  have q: "non_retryable ?e"
    by (simp add: non_retryable_def ascii_def)
  have d: "translate_batches ?env [[?c1]] (req_source_language ?req) (req_target_language ?req) [] []
             = (Inr [\<lparr>tc_id = ascii ''1'', tc_text = ascii ''Hello'',
                      translated_text = ascii ''Hola''\<rparr>], ?w1)"
    by (simp add: translate_batch_with_retry_def retry_upto_def MAX_RETRIES_def upt_rec
        translate_batch_def generate_def example_env_def answers_once_def
        subtitle_parse_response_def clean_hola example_loads_def example_documents_def
        new_TranslatedCue_def)
  have f: "translate_batch_with_retry ?env [?c2] (req_source_language ?req)
             (req_target_language ?req) ?w1 = (Inl ?e, ?w2)"
    using q by (simp add: translate_batch_with_retry_def retry_upto_def MAX_RETRIES_def upt_rec
        translate_batch_def generate_def example_env_def answers_once_def)
  from failed_batch_fails_whole_request[OF b d f] show ?thesis by simp
qed

section \<open>Properties of the response parsers\<close>

lemma startswith_iff: "startswith s p \<longleftrightarrow> (\<exists>t. s = p @ t)"
  by (induction s p rule: startswith.induct) auto

lemma startswith_append [simp]: "startswith (p @ t) p"
  by (simp add: startswith_iff)

lemma endswith_iff: "endswith s p \<longleftrightarrow> (\<exists>t. s = t @ p)"
proof -
  have "(\<exists>t. rev s = rev p @ t) \<longleftrightarrow> (\<exists>t. s = t @ p)"
  proof
    assume "\<exists>t. rev s = rev p @ t"
    then obtain t where "rev s = rev p @ t" by blast
    then have "rev (rev s) = rev (rev p @ t)" by simp
    then show "\<exists>t. s = t @ p" by simp
  next
    assume "\<exists>t. s = t @ p"
    then show "\<exists>t. rev s = rev p @ t" by auto
  qed
  then show ?thesis by (simp add: endswith_def startswith_iff)
qed

lemma not_space_backtick [simp]: "\<not> isspace 96"
  by (simp add: isspace_def)

lemma space_newline [simp]: "isspace 10"
  by (simp add: isspace_def)

lemma rstrip_idle: "s = [] \<or> \<not> isspace (last s) \<Longrightarrow> rstrip s = s"
  by (cases s rule: rev_cases) (auto simp: rstrip_def)

lemma lstrip_idle: "s = [] \<or> \<not> isspace (hd s) \<Longrightarrow> lstrip s = s"
  by (cases s) (auto simp: lstrip_def)

lemma lstrip_head: "lstrip s = [] \<or> \<not> isspace (hd (lstrip s))"
  unfolding lstrip_def using hd_dropWhile[of isspace s] by blast

lemma rstrip_last: "rstrip s = [] \<or> \<not> isspace (last (rstrip s))"
proof -
  have "dropWhile isspace (rev s) = [] \<or> \<not> isspace (hd (dropWhile isspace (rev s)))"
    using hd_dropWhile[of isspace "rev s"] by blast
  then show ?thesis by (auto simp: rstrip_def last_rev)
qed

lemma strip_last: "strip s = [] \<or> \<not> isspace (last (strip s))"
  unfolding strip_def by (rule rstrip_last)

lemma rstrip_head: "s = [] \<or> \<not> isspace (hd s) \<Longrightarrow> rstrip s = [] \<or> \<not> isspace (hd (rstrip s))"
proof (cases s)
  case Nil
  then show ?thesis by (simp add: rstrip_def)
next
  case (Cons c cs)
  assume "s = [] \<or> \<not> isspace (hd s)"
  with Cons have c: "\<not> isspace c" by simp
  have "dropWhile isspace (rev cs @ [c]) = dropWhile isspace (rev cs) @ [c] \<or>
        dropWhile isspace (rev cs @ [c]) = [c]"
    using c by (simp add: dropWhile_append)
  then show ?thesis using Cons c by (auto simp: rstrip_def)
qed

lemma strip_head: "strip s = [] \<or> \<not> isspace (hd (strip s))"
  unfolding strip_def using rstrip_head[OF lstrip_head] .

lemma strip_strip: "strip (strip s) = strip s"
proof -
  have "lstrip (strip s) = strip s" using lstrip_idle[OF strip_head] .
  moreover have "rstrip (strip s) = strip s" using rstrip_idle[OF strip_last] .
  ultimately show ?thesis by (simp add: strip_def)
qed


lemma strip_idle: "(s = [] \<or> \<not> isspace (hd s)) \<Longrightarrow> (s = [] \<or> \<not> isspace (last s)) \<Longrightarrow> strip s = s"
  by (simp add: strip_def lstrip_idle rstrip_idle)


lemma fence_to_end_cases: "fence_to_end s \<Longrightarrow> s = fence \<or> (s \<noteq> [] \<and> isspace (last s))"
proof -
  assume f: "fence_to_end s"
  then obtain t where t: "s = fence @ t" by (auto simp: fence_to_end_def startswith_iff)
  from f t have "list_all isspace t" by (simp add: fence_to_end_def fence_def)
  then show ?thesis using t by (cases t rule: rev_cases) (auto simp: fence_def)
qed

lemma trailing_fence_here_cases:
  "trailing_fence_here s \<Longrightarrow> s \<noteq> [] \<and> (endswith s fence \<or> isspace (last s))"
proof (cases s)
  case Nil
  assume "trailing_fence_here s"
  with Nil show ?thesis by simp
next
  case (Cons c cs)
  assume t: "trailing_fence_here s"
  show ?thesis
  proof (cases "c = 10")
    case True
    with t Cons have "fence_to_end cs" by simp
    from fence_to_end_cases[OF this] show ?thesis
      using Cons by (auto simp: endswith_iff)
  next
    case False
    with t Cons have "fence_to_end (c # cs)" by simp
    from fence_to_end_cases[OF this] show ?thesis
      using Cons by (auto simp: endswith_iff)
  qed
qed

lemma sub_trailing_fence_idle_aux:
  "\<not> endswith (pre @ s) fence \<Longrightarrow> pre @ s = [] \<or> \<not> isspace (last (pre @ s)) \<Longrightarrow>
   sub_trailing_fence s = s"
proof (induction s arbitrary: pre)
  case Nil
  then show ?case by simp
next
  case (Cons c cs)
  have "\<not> trailing_fence_here (c # cs)"
  proof
    assume "trailing_fence_here (c # cs)"
    from trailing_fence_here_cases[OF this]
    have "endswith (c # cs) fence \<or> isspace (last (c # cs))" by simp
    then show False
    proof
      assume "endswith (c # cs) fence"
      then have "endswith (pre @ c # cs) fence" by (auto simp: endswith_iff)
      with Cons.prems show False by simp
    next
      assume "isspace (last (c # cs))"
      with Cons.prems show False by simp
    qed
  qed
  moreover have "sub_trailing_fence cs = cs"
    using Cons.IH[of "pre @ [c]"] Cons.prems by simp
  ultimately show ?case by simp
qed

lemma sub_trailing_fence_idle:
  "\<not> endswith s fence \<Longrightarrow> s = [] \<or> \<not> isspace (last s) \<Longrightarrow> sub_trailing_fence s = s"
  using sub_trailing_fence_idle_aux[of "[]" s] by simp

lemma clean_unfenced:
  assumes "\<not> startswith (strip p) fence" and "\<not> endswith (strip p) fence"
  shows "clean_response p = strip p"
proof -
  have "sub_leading_fence (strip p) = strip p"
    using assms(1) by (simp add: sub_leading_fence_def)
  moreover have "sub_trailing_fence (strip p) = strip p"
    using sub_trailing_fence_idle[OF assms(2) strip_last] .
  ultimately show ?thesis by (simp add: clean_response_def strip_strip)
qed













lemmas eval_clean = clean_response_def strip_def lstrip_def rstrip_def sub_leading_fence_def
      fence_def json_tag_def fence_to_end_def fenced_def ascii_def isspace_def



text \<open>
  C6. When the cleaned response decodes to a JSON value: the subtitle parser raises
  \<open>ValueError\<close> unless the value is an array, and returns the array as decoded; the
  detection parser raises \<open>ValueError\<close> unless the value is an object with the keys
  \<open>language\<close> and \<open>confidence\<close>, the transliteration parser unless it is an object with
  the keys \<open>result\<close> and \<open>source_script\<close>, and each returns the object as decoded.
\<close>
theorem wrong_shape_is_a_parse_error:
  assumes "json_loads env (clean_response r) = Inr v"
  shows "(\<not> is_array v \<longrightarrow>
            subtitle_parse_response env r =
              Inl (ValueError (ascii ''Response is not a JSON array''))) \<and>
         (\<forall>xs. v = JArr xs \<longrightarrow> subtitle_parse_response env r = Inr xs) \<and>
         (\<not> is_object_with (ascii ''language'') (ascii ''confidence'') v \<longrightarrow>
            detection_parse_response env r =
              Inl (ValueError (shape_message (ascii ''language'') (ascii ''confidence'')))) \<and>
         (\<forall>d. v = JObj d \<and> is_object_with (ascii ''language'') (ascii ''confidence'') v \<longrightarrow>
            detection_parse_response env r = Inr d) \<and>
         (\<not> is_object_with (ascii ''result'') (ascii ''source_script'') v \<longrightarrow>
            transliteration_parse_response env r =
              Inl (ValueError (shape_message (ascii ''result'') (ascii ''source_script'')))) \<and>
         (\<forall>d. v = JObj d \<and> is_object_with (ascii ''result'') (ascii ''source_script'') v \<longrightarrow>
            transliteration_parse_response env r = Inr d)"
proof (intro conjI)
  show "\<not> is_array v \<longrightarrow>
          subtitle_parse_response env r = Inl (ValueError (ascii ''Response is not a JSON array''))"
    using assms by (cases v) (simp_all add: subtitle_parse_response_def)
  show "\<forall>xs. v = JArr xs \<longrightarrow> subtitle_parse_response env r = Inr xs"
    using assms by (simp add: subtitle_parse_response_def)
  show "\<not> is_object_with (ascii ''language'') (ascii ''confidence'') v \<longrightarrow>
          detection_parse_response env r =
            Inl (ValueError (shape_message (ascii ''language'') (ascii ''confidence'')))"
    using assms by (cases v) (auto simp: detection_parse_response_def)
  show "\<forall>d. v = JObj d \<and> is_object_with (ascii ''language'') (ascii ''confidence'') v \<longrightarrow>
          detection_parse_response env r = Inr d"
    using assms by (auto simp: detection_parse_response_def)
  show "\<not> is_object_with (ascii ''result'') (ascii ''source_script'') v \<longrightarrow>
          transliteration_parse_response env r =
            Inl (ValueError (shape_message (ascii ''result'') (ascii ''source_script'')))"
    using assms by (cases v) (auto simp: transliteration_parse_response_def)
  show "\<forall>d. v = JObj d \<and> is_object_with (ascii ''result'') (ascii ''source_script'') v \<longrightarrow>
          transliteration_parse_response env r = Inr d"
    using assms by (auto simp: transliteration_parse_response_def)
qed

lemma clean_french:
  \<open>clean_response (ascii ''{"language": "French", "confidence": 0.75}'') =
     ascii ''{"language": "French", "confidence": 0.75}''\<close>
  by (simp add: eval_clean)

lemma loads_french:
  \<open>example_loads (ascii ''{"language": "French", "confidence": 0.75}'') =
     Inr (JObj [(ascii ''language'', JStr (ascii ''French'')),
                (ascii ''confidence'', JFloat 0.75)])\<close>
  by (simp add: example_loads_def example_documents_def ascii_def)

theorem wrong_shape_is_a_parse_error_witness:
  \<open>subtitle_parse_response (example_env (answers []))
       (ascii ''{"language": "French", "confidence": 0.75}'') =
      Inl (ValueError (ascii ''Response is not a JSON array'')) \<and>
    detection_parse_response (example_env (answers []))
       (ascii ''{"language": "French", "confidence": 0.75}'') =
      Inr [(ascii ''language'', JStr (ascii ''French'')), (ascii ''confidence'', JFloat 0.75)] \<and>
    transliteration_parse_response (example_env (answers []))
       (ascii ''{"language": "French", "confidence": 0.75}'') =
      Inl (ValueError (shape_message (ascii ''result'') (ascii ''source_script'')))\<close>
proof -
  let ?r = \<open>ascii ''{"language": "French", "confidence": 0.75}''\<close>
  let ?d = "[(ascii ''language'', JStr (ascii ''French'')), (ascii ''confidence'', JFloat 0.75)]"
  have h: "json_loads (example_env (answers [])) (clean_response ?r) = Inr (JObj ?d)"
    by (simp add: clean_french loads_french example_env_def)
  have a: "\<not> is_array (JObj ?d)" by simp
  have b: "is_object_with (ascii ''language'') (ascii ''confidence'') (JObj ?d)"
    by (simp add: ascii_def)
  have c: "\<not> is_object_with (ascii ''result'') (ascii ''source_script'') (JObj ?d)"
    by (simp add: ascii_def)
  from wrong_shape_is_a_parse_error[OF h] a b c show ?thesis by blast
qed

section \<open>Properties of request validation\<close>

lemma validate_text_accepts:
  "validate_text env v = Inr t \<Longrightarrow> t = strip v \<and> t \<noteq> []"
  by (auto simp: validate_text_def split: if_splits)

lemma validate_text_rejects:
  "strip v = [] \<Longrightarrow> \<exists>m. validate_text env v = Inl (ValidationError m)"
  by (simp add: validate_text_def field_error_def)

lemma validate_language_accepts:
  "validate_language env v = Inr t \<Longrightarrow> t = strip v \<and> t \<noteq> []"
  by (auto simp: validate_language_def split: if_splits)

lemma validate_language_rejects:
  "strip v = [] \<Longrightarrow> \<exists>m. validate_language env v = Inl (ValidationError m)"
  by (simp add: validate_language_def field_error_def)

lemma validate_text_error:
  "validate_text env v = Inl e \<Longrightarrow> \<exists>m. e = ValidationError m"
  by (auto simp: validate_text_def field_error_def split: if_splits)

lemma validate_language_error:
  "validate_language env v = Inl e \<Longrightarrow> \<exists>m. e = ValidationError m"
  by (auto simp: validate_language_def field_error_def split: if_splits)

lemma TranslationRequest_accepts:
  assumes "new_TranslationRequest env raw = Inr r"
  shows "tr_text r = strip (raw_tr_text raw) \<and> tr_text r \<noteq> [] \<and>
         (\<forall>v. raw_tr_source_language raw = Some v \<longrightarrow>
                tr_source_language r = strip v \<and> strip v \<noteq> []) \<and>
         (\<forall>v. raw_tr_target_language raw = Some v \<longrightarrow>
                tr_target_language r = strip v \<and> strip v \<noteq> [])"
  using assms
  by (auto simp: new_TranslationRequest_def with_default_def
      split: sum.splits option.splits
      dest!: validate_text_accepts validate_language_accepts)

lemma TranslationRequest_rejects:
  assumes "strip (raw_tr_text raw) = [] \<or>
           (\<exists>v. raw_tr_source_language raw = Some v \<and> strip v = []) \<or>
           (\<exists>v. raw_tr_target_language raw = Some v \<and> strip v = [])"
  shows "\<exists>m. new_TranslationRequest env raw = Inl (ValidationError m)"
proof (cases "new_TranslationRequest env raw")
  case (Inl e)
  then have "\<exists>m. e = ValidationError m"
    by (auto simp: new_TranslationRequest_def with_default_def
        split: sum.splits option.splits
        dest: validate_text_error validate_language_error)
  with Inl show ?thesis by blast
next
  case (Inr r)
  from TranslationRequest_accepts[OF Inr] assms show ?thesis by auto
qed

lemma TextTranslationRequest_accepts:
  assumes "new_TextTranslationRequest env raw = Inr r"
  shows "tt_text r = strip (raw_tt_text raw) \<and> tt_text r \<noteq> [] \<and>
         tt_target_language r = strip (raw_tt_target_language raw) \<and>
         tt_target_language r \<noteq> [] \<and>
         (\<forall>v. raw_tt_source_language raw = Some v \<longrightarrow> tt_source_language r = v)"
  using assms
  by (auto simp: new_TextTranslationRequest_def
      split: sum.splits option.splits
      dest!: validate_text_accepts validate_language_accepts)

lemma TextTranslationRequest_rejects:
  assumes "strip (raw_tt_text raw) = [] \<or> strip (raw_tt_target_language raw) = []"
  shows "\<exists>m. new_TextTranslationRequest env raw = Inl (ValidationError m)"
proof (cases "new_TextTranslationRequest env raw")
  case (Inl e)
  then have "\<exists>m. e = ValidationError m"
    by (auto simp: new_TextTranslationRequest_def
        split: sum.splits option.splits
        dest: validate_text_error validate_language_error)
  with Inl show ?thesis by blast
next
  case (Inr r)
  from TextTranslationRequest_accepts[OF Inr] assms show ?thesis by auto
qed

lemma LanguageDetectionRequest_accepts:
  "new_LanguageDetectionRequest env raw_text = Inr r \<Longrightarrow>
     ld_text r = strip raw_text \<and> ld_text r \<noteq> []"
  by (auto simp: new_LanguageDetectionRequest_def split: sum.splits
      dest!: validate_text_accepts)

lemma LanguageDetectionRequest_rejects:
  "strip raw_text = [] \<Longrightarrow>
     \<exists>m. new_LanguageDetectionRequest env raw_text = Inl (ValidationError m)"
  using validate_text_rejects[of raw_text env]
  by (auto simp: new_LanguageDetectionRequest_def)

lemma SubtitleTranslationRequest_accepts:
  assumes "new_SubtitleTranslationRequest env raw = Inr r"
  shows "req_cues r = raw_cues raw \<and>
         (\<forall>v. raw_source_language raw = Some v \<longrightarrow> req_source_language r = v) \<and>
         (\<forall>v. raw_target_language raw = Some v \<longrightarrow> req_target_language r = v)"
  using assms
  by (auto simp: new_SubtitleTranslationRequest_def Let_def split: if_splits)

text \<open>
  C8, as amended. The fields that have a validator are trimmed, and a request in which
  one of them is empty after trimming is rejected with a validation error: \<open>text\<close> and,
  when given, both languages of \<open>TranslationRequest\<close>; \<open>text\<close> and \<open>target_language\<close> of
  \<open>TextTranslationRequest\<close>; \<open>text\<close> of \<open>LanguageDetectionRequest\<close>. The fields that
  have none are kept as given: the \<open>source_language\<close> of \<open>TextTranslationRequest\<close>, the
  cues and the languages of \<open>SubtitleTranslationRequest\<close>.
\<close>
theorem validated_fields_are_trimmed:
  "(\<forall>r. new_TranslationRequest env raw1 = Inr r \<longrightarrow>
       tr_text r = strip (raw_tr_text raw1) \<and> tr_text r \<noteq> [] \<and>
       (\<forall>v. raw_tr_source_language raw1 = Some v \<longrightarrow>
              tr_source_language r = strip v \<and> strip v \<noteq> []) \<and>
       (\<forall>v. raw_tr_target_language raw1 = Some v \<longrightarrow>
              tr_target_language r = strip v \<and> strip v \<noteq> [])) \<and>
   (strip (raw_tr_text raw1) = [] \<or>
    (\<exists>v. raw_tr_source_language raw1 = Some v \<and> strip v = []) \<or>
    (\<exists>v. raw_tr_target_language raw1 = Some v \<and> strip v = []) \<longrightarrow>
      (\<exists>m. new_TranslationRequest env raw1 = Inl (ValidationError m))) \<and>
   (\<forall>r. new_TextTranslationRequest env raw2 = Inr r \<longrightarrow>
       tt_text r = strip (raw_tt_text raw2) \<and> tt_text r \<noteq> [] \<and>
       tt_target_language r = strip (raw_tt_target_language raw2) \<and>
       tt_target_language r \<noteq> [] \<and>
       (\<forall>v. raw_tt_source_language raw2 = Some v \<longrightarrow> tt_source_language r = v)) \<and>
   (strip (raw_tt_text raw2) = [] \<or> strip (raw_tt_target_language raw2) = [] \<longrightarrow>
      (\<exists>m. new_TextTranslationRequest env raw2 = Inl (ValidationError m))) \<and>
   (\<forall>r. new_LanguageDetectionRequest env raw3 = Inr r \<longrightarrow>
       ld_text r = strip raw3 \<and> ld_text r \<noteq> []) \<and>
   (strip raw3 = [] \<longrightarrow>
      (\<exists>m. new_LanguageDetectionRequest env raw3 = Inl (ValidationError m))) \<and>
   (\<forall>r. new_SubtitleTranslationRequest env raw4 = Inr r \<longrightarrow>
       req_cues r = raw_cues raw4 \<and>
       (\<forall>v. raw_source_language raw4 = Some v \<longrightarrow> req_source_language r = v) \<and>
       (\<forall>v. raw_target_language raw4 = Some v \<longrightarrow> req_target_language r = v))"
  using TranslationRequest_accepts[of env raw1] TranslationRequest_rejects[of raw1 env]
    TextTranslationRequest_accepts[of env raw2] TextTranslationRequest_rejects[of raw2 env]
    LanguageDetectionRequest_accepts[of env raw3] LanguageDetectionRequest_rejects[of raw3 env]
    SubtitleTranslationRequest_accepts[of env raw4]
  by blast

text \<open>
  C8 as stated fails on a subtitle request: a cue whose text is three spaces and whose id
  has spaces around it, with a source language that has spaces around it, is accepted,
  and every field is kept as it came.
\<close>
theorem cue_fields_are_not_trimmed_counterexample:
  "strip (ascii ''   '') = [] \<and> strip (ascii '' 1 '') \<noteq> ascii '' 1 '' \<and>
   strip (ascii '' English '') \<noteq> ascii '' English '' \<and>
   new_SubtitleTranslationRequest (example_env (answers []))
     \<lparr>raw_cues = [\<lparr>cue_id = ascii '' 1 '', cue_text = ascii ''   ''\<rparr>],
      raw_source_language = Some (ascii '' English ''), raw_target_language = None,
      raw_batch_size = None\<rparr> =
   Inr \<lparr>req_cues = [\<lparr>cue_id = ascii '' 1 '', cue_text = ascii ''   ''\<rparr>],
        req_source_language = ascii '' English '', req_target_language = ascii ''Spanish'',
        req_batch_size = 25\<rparr>"
  by (simp add: new_SubtitleTranslationRequest_def strip_def lstrip_def rstrip_def ascii_def
      isspace_def)

theorem validated_fields_are_trimmed_witness:
  "new_TranslationRequest (example_env (answers []))
     \<lparr>raw_tr_text = ascii ''  Hello '', raw_tr_source_language = Some (ascii '' English ''),
      raw_tr_target_language = None\<rparr> =
     Inr \<lparr>tr_text = ascii ''Hello'', tr_source_language = ascii ''English'',
          tr_target_language = ascii ''Telugu''\<rparr> \<and>
   (\<exists>m. new_TranslationRequest (example_env (answers []))
     \<lparr>raw_tr_text = ascii ''Hello'', raw_tr_source_language = Some (ascii ''  ''),
      raw_tr_target_language = None\<rparr> = Inl (ValidationError m)) \<and>
   new_TextTranslationRequest (example_env (answers []))
     \<lparr>raw_tt_text = ascii '' Bonjour '', raw_tt_source_language = Some (ascii '' French ''),
      raw_tt_target_language = ascii '' German''\<rparr> =
     Inr \<lparr>tt_text = ascii ''Bonjour'', tt_source_language = ascii '' French '',
          tt_target_language = ascii ''German''\<rparr> \<and>
   (\<exists>m. new_TextTranslationRequest (example_env (answers []))
     \<lparr>raw_tt_text = ascii ''Bonjour'', raw_tt_source_language = None,
      raw_tt_target_language = ascii '' ''\<rparr> = Inl (ValidationError m)) \<and>
   new_LanguageDetectionRequest (example_env (answers [])) (ascii '' Bonjour '') =
     Inr \<lparr>ld_text = ascii ''Bonjour''\<rparr> \<and>
   (\<exists>m. new_LanguageDetectionRequest (example_env (answers [])) (ascii ''  '') =
     Inl (ValidationError m)) \<and>
   req_cues \<lparr>req_cues = hello_world, req_source_language = ascii ''en '',
             req_target_language = ascii ''Spanish'', req_batch_size = 25\<rparr> = hello_world"
proof -
  let ?env = "example_env (answers [])"
  let ?r1 = "\<lparr>raw_tr_text = ascii ''  Hello '', raw_tr_source_language = Some (ascii '' English ''),
      raw_tr_target_language = None\<rparr>"
  let ?b1 = "\<lparr>raw_tr_text = ascii ''Hello'', raw_tr_source_language = Some (ascii ''  ''),
      raw_tr_target_language = None\<rparr>"
  let ?r2 = "\<lparr>raw_tt_text = ascii '' Bonjour '', raw_tt_source_language = Some (ascii '' French ''),
      raw_tt_target_language = ascii '' German''\<rparr>"
  let ?b2 = "\<lparr>raw_tt_text = ascii ''Bonjour'', raw_tt_source_language = None,
      raw_tt_target_language = ascii '' ''\<rparr>"
  let ?r4 = "\<lparr>raw_cues = hello_world, raw_source_language = Some (ascii ''en ''),
      raw_target_language = None, raw_batch_size = None\<rparr>"
  note ev = strip_def lstrip_def rstrip_def ascii_def isspace_def is_surrogate_def
  have a1: "new_TranslationRequest ?env ?r1 =
     Inr \<lparr>tr_text = ascii ''Hello'', tr_source_language = ascii ''English'',
          tr_target_language = ascii ''Telugu''\<rparr>"
    by (simp add: new_TranslationRequest_def validate_text_def validate_language_def
        with_default_def ev)
  have a2: "new_TextTranslationRequest ?env ?r2 =
     Inr \<lparr>tt_text = ascii ''Bonjour'', tt_source_language = ascii '' French '',
          tt_target_language = ascii ''German''\<rparr>"
    by (simp add: new_TextTranslationRequest_def validate_text_def validate_language_def ev)
  have a3: "new_LanguageDetectionRequest ?env (ascii '' Bonjour '') =
     Inr \<lparr>ld_text = ascii ''Bonjour''\<rparr>"
    by (simp add: new_LanguageDetectionRequest_def validate_text_def ev)
  have a4: "new_SubtitleTranslationRequest ?env ?r4 =
     Inr \<lparr>req_cues = hello_world, req_source_language = ascii ''en '',
             req_target_language = ascii ''Spanish'', req_batch_size = 25\<rparr>"
    by (simp add: new_SubtitleTranslationRequest_def hello_world_def)
  have s1: "\<exists>v. raw_tr_source_language ?b1 = Some v \<and> strip v = []"
    by (simp add: ev)
  have s2: "strip (raw_tt_target_language ?b2) = []"
    by (simp add: ev)
  have s3: "strip (ascii ''  '') = []"
    by (simp add: ev)
  from validated_fields_are_trimmed[of ?env ?r1 ?r2 "ascii '' Bonjour ''" ?r4] a4
  have g4: "req_cues \<lparr>req_cues = hello_world, req_source_language = ascii ''en '',
             req_target_language = ascii ''Spanish'', req_batch_size = 25\<rparr> = hello_world"
    by simp
  from validated_fields_are_trimmed[of ?env ?b1 ?b2 "ascii ''  ''" ?r4] s1 s2 s3
  have "(\<exists>m. new_TranslationRequest ?env ?b1 = Inl (ValidationError m)) \<and>
        (\<exists>m. new_TextTranslationRequest ?env ?b2 = Inl (ValidationError m)) \<and>
        (\<exists>m. new_LanguageDetectionRequest ?env (ascii ''  '') = Inl (ValidationError m))"
    by blast
  with a1 a2 a3 g4 show ?thesis by simp
qed

section \<open>Properties of detection and transliteration\<close>

lemma detect_returns_decoded:
  assumes "generate_content env w (detect_prompt t) = Inr r"
    and "json_loads env (clean_response r) = Inr (JObj d)"
    and "map_of d (ascii ''language'') = Some lang"
    and "map_of d (ascii ''confidence'') = Some conf"
  shows "detect env t w = ((True, lang, conf, None), w @ [Generate (detect_prompt t)])"
  using assms
  by (simp add: detect_def generate_def detection_parse_response_def getitem_def)

lemma confidence_field_number:
  "number_value conf = Some c \<Longrightarrow>
   confidence_field env conf =
     (if 0 \<le> c \<and> c \<le> 1 then Inr (Some c) else Inl (ValidationError (validation_text env conf)))"
  by (cases conf) (auto simp: bounded_float_def)

text \<open>
  C9, as amended. When the provider's answer decodes to an object whose \<open>language\<close> is a
  string and whose \<open>confidence\<close> is a number, the detection service returns both as
  decoded, whatever the number. The endpoint's response model then checks the number:
  between 0 and 1, the response is a success that carries the language and exactly that
  confidence; outside, the response is \<open>success = False\<close> with the validation error's
  message, and carries neither.
\<close>
theorem confidence_is_checked_by_the_response_model:
  assumes "generate_content env w (detect_prompt (ld_text request)) = Inr r"
    and "json_loads env (clean_response r) = Inr (JObj d)"
    and "map_of d (ascii ''language'') = Some (JStr l)"
    and "map_of d (ascii ''confidence'') = Some conf"
    and "number_value conf = Some c"
  shows "fst (detect env (ld_text request) w) = (True, JStr l, conf, None) \<and>
         fst (detect_language env request w) =
           (if 0 \<le> c \<and> c \<le> 1
            then \<lparr>ldr_success = True, ldr_detected_language = Some l, ldr_confidence = Some c,
                  ldr_error_message = None\<rparr>
            else \<lparr>ldr_success = False, ldr_detected_language = None, ldr_confidence = None,
                  ldr_error_message = Some (validation_text env conf)\<rparr>)"
  using detect_returns_decoded[OF assms(1-4)] confidence_field_number[OF assms(5), of env]
  by (simp add: detect_language_def new_LanguageDetectionResponse_def)

lemma clean_plain_object:
  "s \<noteq> [] \<Longrightarrow> hd s = 123 \<Longrightarrow> last s = 125 \<Longrightarrow> clean_response s = s"
proof -
  assume n: "s \<noteq> []" and h: "hd s = 123" and l: "last s = 125"
  have st: "strip s = s"
    by (rule strip_idle) (simp_all add: h l isspace_def)
  have a: "\<not> startswith (strip s) fence"
    unfolding st using n h by (cases s) (simp_all add: fence_def)
  have b: "\<not> endswith (strip s) fence"
    unfolding st using n l by (cases s rule: rev_cases) (simp_all add: endswith_def fence_def)
  from clean_unfenced[OF a b] st show ?thesis by simp
qed

theorem confidence_is_checked_by_the_response_model_witness:
  \<open>fst (detect_language
          (example_env (answers (ascii ''{"language": "French", "confidence": 0.75}'')))
          \<lparr>ld_text = ascii ''Bonjour''\<rparr> []) =
     \<lparr>ldr_success = True, ldr_detected_language = Some (ascii ''French''),
      ldr_confidence = Some 0.75, ldr_error_message = None\<rparr>\<close>
proof -
  let ?t = \<open>ascii ''{"language": "French", "confidence": 0.75}''\<close>
  let ?env = "example_env (answers ?t)"
  let ?d = "[(ascii ''language'', JStr (ascii ''French'')), (ascii ''confidence'', JFloat 0.75)]"
  have g: "generate_content ?env [] (detect_prompt (ld_text \<lparr>ld_text = ascii ''Bonjour''\<rparr>)) = Inr ?t"
    by (simp add: example_env_def answers_def)
  have j: "json_loads ?env (clean_response ?t) = Inr (JObj ?d)"
    by (simp add: clean_french loads_french example_env_def)
  have k1: "map_of ?d (ascii ''language'') = Some (JStr (ascii ''French''))" by simp
  have k2: "map_of ?d (ascii ''confidence'') = Some (JFloat 0.75)" by (simp add: ascii_def)
  have n: "number_value (JFloat 0.75) = Some 0.75" by simp
  from confidence_is_checked_by_the_response_model[OF g j k1 k2 n] show ?thesis by simp
qed

text \<open>
  C9 as stated fails at a confidence of 1.5: the service returns it, and the endpoint's
  response has \<open>success = False\<close> and no confidence.
\<close>
theorem out_of_range_confidence_is_rejected_counterexample:
  \<open>fst (detect (example_env (answers (ascii ''{"language": "French", "confidence": 1.5}'')))
          (ascii ''Bonjour'') []) =
     (True, JStr (ascii ''French''), JFloat 1.5, None) \<and>
    fst (detect_language
          (example_env (answers (ascii ''{"language": "French", "confidence": 1.5}'')))
          \<lparr>ld_text = ascii ''Bonjour''\<rparr> []) =
     \<lparr>ldr_success = False, ldr_detected_language = None, ldr_confidence = None,
      ldr_error_message = Some (ascii ''validation error'')\<rparr>\<close>
proof -
  let ?t = \<open>ascii ''{"language": "French", "confidence": 1.5}''\<close>
  let ?env = "example_env (answers ?t)"
  let ?d = "[(ascii ''language'', JStr (ascii ''French'')), (ascii ''confidence'', JFloat 1.5)]"
  have c: "clean_response ?t = ?t"
    by (rule clean_plain_object) (simp_all add: ascii_def)
  have l: "example_loads ?t = Inr (JObj ?d)"
    by (simp add: example_loads_def example_documents_def ascii_def)
  have k: "map_of ?d (ascii ''confidence'') = Some (JFloat 1.5)" by (simp add: ascii_def)
  have d: "fst (detect ?env (ascii ''Bonjour'') []) =
             (True, JStr (ascii ''French''), JFloat 1.5, None)"
    using k by (simp add: detect_def generate_def detection_parse_response_def getitem_def
        example_env_def answers_def c l)
  then obtain w' where dd: "detect ?env (ascii ''Bonjour'') [] =
             ((True, JStr (ascii ''French''), JFloat 1.5, None), w')"
    by (cases "detect ?env (ascii ''Bonjour'') []") simp
  have vt: "validation_text ?env v = ascii ''validation error''" for v
    by (simp add: example_env_def)
  have "fst (detect_language ?env \<lparr>ld_text = ascii ''Bonjour''\<rparr> []) =
     \<lparr>ldr_success = False, ldr_detected_language = None, ldr_confidence = None,
      ldr_error_message = Some (ascii ''validation error'')\<rparr>"
    by (simp add: detect_language_def dd new_LanguageDetectionResponse_def bounded_float_def vt)
  with d show ?thesis by simp
qed

lemma transliterate_failure_is_null:
  "transliterate env t s g w = ((False, tt, ss, err), w') \<Longrightarrow> tt = JNull \<and> ss = JNull"
  by (auto simp: transliterate_def generate_def Let_def split: sum.splits)

lemma source_script_when_falsy:
  "\<not> truthy ss \<Longrightarrow>
   tlr_source_script
     (case new_TransliterationResponse env success tt (or_else ss d) g err of
        Inr response \<Rightarrow> response
      | Inl e \<Rightarrow> \<lparr>tlr_success = False, tlr_transliterated_text = None, tlr_source_script = d,
                 tlr_target_script = g, tlr_error_message = Some (str_exn e)\<rparr>) = d"
  by (auto simp: new_TransliterationResponse_def or_else_def split: sum.splits)

lemma fst_transliterate_text:
  assumes "transliterate env (tl_text request) (tl_source_script request)
             (tl_target_script request) w = ((success, tt, ss, err), w')"
  shows "fst (transliterate_text env request w) =
     (case new_TransliterationResponse env success tt
             (or_else ss (tl_source_script request)) (tl_target_script request) err of
        Inr response \<Rightarrow> response
      | Inl e \<Rightarrow> \<lparr>tlr_success = False, tlr_transliterated_text = None,
                 tlr_source_script = tl_source_script request,
                 tlr_target_script = tl_target_script request,
                 tlr_error_message = Some (str_exn e)\<rparr>)"
  using assms by (simp add: transliterate_text_def split: sum.splits)

text \<open>
  C10, as amended. Whatever the transliteration service returns: when it reports a
  failure, the response's \<open>source_script\<close> is the request's; when the detected value is
  falsy (an empty string, \<open>None\<close>, zero, \<open>False\<close>, an empty list or object), it is the
  request's; when the service succeeds with a non-empty string as detected script and a
  string or \<open>None\<close> as transliterated text, it is the detected script and the response is
  a success; and when the response model rejects the values, the response is the
  endpoint's fallback, \<open>success = False\<close> with the request's \<open>source_script\<close>.
\<close>
theorem response_source_script:
  assumes "transliterate env (tl_text request) (tl_source_script request)
             (tl_target_script request) w = ((success, tt, ss, err), w')"
  shows "(\<not> success \<longrightarrow>
            tlr_source_script (fst (transliterate_text env request w)) =
              tl_source_script request) \<and>
         (\<not> truthy ss \<longrightarrow>
            tlr_source_script (fst (transliterate_text env request w)) =
              tl_source_script request) \<and>
         (\<forall>s. success \<and> ss = JStr s \<and> s \<noteq> [] \<and> (tt = JNull \<or> (\<exists>t. tt = JStr t)) \<longrightarrow>
            tlr_source_script (fst (transliterate_text env request w)) = s \<and>
            tlr_success (fst (transliterate_text env request w))) \<and>
         (\<forall>e. new_TransliterationResponse env success tt
                 (or_else ss (tl_source_script request)) (tl_target_script request) err = Inl e \<longrightarrow>
            fst (transliterate_text env request w) =
              \<lparr>tlr_success = False, tlr_transliterated_text = None,
               tlr_source_script = tl_source_script request,
               tlr_target_script = tl_target_script request,
               tlr_error_message = Some (str_exn e)\<rparr>)"
proof (intro conjI)
  note f = fst_transliterate_text[OF assms]
  show "\<not> truthy ss \<longrightarrow>
          tlr_source_script (fst (transliterate_text env request w)) = tl_source_script request"
    unfolding f using source_script_when_falsy by blast
  show "\<not> success \<longrightarrow>
          tlr_source_script (fst (transliterate_text env request w)) = tl_source_script request"
  proof
    assume "\<not> success"
    with assms have "ss = JNull"
      using transliterate_failure_is_null[of env "tl_text request" "tl_source_script request"
          "tl_target_script request" w tt ss err w'] by simp
    then have "\<not> truthy ss" by simp
    then show "tlr_source_script (fst (transliterate_text env request w)) =
                 tl_source_script request"
      unfolding f using source_script_when_falsy by blast
  qed
  show "\<forall>s. success \<and> ss = JStr s \<and> s \<noteq> [] \<and> (tt = JNull \<or> (\<exists>t. tt = JStr t)) \<longrightarrow>
            tlr_source_script (fst (transliterate_text env request w)) = s \<and>
            tlr_success (fst (transliterate_text env request w))"
    unfolding f by (auto simp: new_TransliterationResponse_def or_else_def)
  show "\<forall>e. new_TransliterationResponse env success tt
                 (or_else ss (tl_source_script request)) (tl_target_script request) err = Inl e \<longrightarrow>
            fst (transliterate_text env request w) =
              \<lparr>tlr_success = False, tlr_transliterated_text = None,
               tlr_source_script = tl_source_script request,
               tlr_target_script = tl_target_script request,
               tlr_error_message = Some (str_exn e)\<rparr>"
    unfolding f by simp
qed

lemma transliterate_example:
  assumes "s \<noteq> []" and "hd s = 123" and "last s = 125"
    and "example_loads s = Inr (JObj d)"
    and "map_of d (ascii ''result'') = Some tt"
    and "map_of d (ascii ''source_script'') = Some ss"
  shows "\<exists>w'. transliterate (example_env (answers s)) (tl_text namaste_request)
            (tl_source_script namaste_request) (tl_target_script namaste_request) [] =
           ((True, tt, ss, None), w')"
  using assms(4-6) clean_plain_object[OF assms(1-3)]
  by (simp add: transliterate_def generate_def transliteration_parse_response_def getitem_def
      example_env_def answers_def)

theorem response_source_script_witness:
  \<open>tlr_source_script (fst (transliterate_text
       (example_env (answers (ascii ''{"source_script": "Devanagari", "result": "namaste"}'')))
       namaste_request [])) = ascii ''Devanagari'' \<and>
    tlr_source_script (fst (transliterate_text
       (example_env (raises (UpstreamError (ascii ''503 unavailable''))))
       namaste_request [])) = ascii ''Auto-detect''\<close>
proof -
  let ?t = \<open>ascii ''{"source_script": "Devanagari", "result": "namaste"}''\<close>
  let ?d = "[(ascii ''source_script'', JStr (ascii ''Devanagari'')),
             (ascii ''result'', JStr (ascii ''namaste''))]"
  have l: "example_loads ?t = Inr (JObj ?d)"
    by (simp add: example_loads_def example_documents_def ascii_def)
  have "\<exists>w'. transliterate (example_env (answers ?t)) (tl_text namaste_request)
            (tl_source_script namaste_request) (tl_target_script namaste_request) [] =
           ((True, JStr (ascii ''namaste''), JStr (ascii ''Devanagari''), None), w')"
    by (rule transliterate_example[OF _ _ _ l]) (simp_all add: ascii_def)
  then obtain w1 where ok: "transliterate (example_env (answers ?t)) (tl_text namaste_request)
            (tl_source_script namaste_request) (tl_target_script namaste_request) [] =
           ((True, JStr (ascii ''namaste''), JStr (ascii ''Devanagari''), None), w1)"
    by blast
  have "\<exists>m w'. transliterate (example_env (raises (UpstreamError (ascii ''503 unavailable''))))
            (tl_text namaste_request) (tl_source_script namaste_request)
            (tl_target_script namaste_request) [] = ((False, JNull, JNull, Some m), w')"
    by (simp add: transliterate_def generate_def example_env_def raises_def)
  then obtain m w2 where
    ko: "transliterate (example_env (raises (UpstreamError (ascii ''503 unavailable''))))
            (tl_text namaste_request) (tl_source_script namaste_request)
            (tl_target_script namaste_request) [] = ((False, JNull, JNull, Some m), w2)"
    by blast
  have a: "tlr_source_script (fst (transliterate_text (example_env (answers ?t))
             namaste_request [])) = ascii ''Devanagari''"
    using response_source_script[OF ok] by (simp add: ascii_def)
  have b: "tlr_source_script (fst (transliterate_text
             (example_env (raises (UpstreamError (ascii ''503 unavailable''))))
             namaste_request [])) = tl_source_script namaste_request"
    using response_source_script[OF ko] by simp
  from a b show ?thesis by (simp add: namaste_request_def)
qed

text \<open>
  C10 as stated fails in two ways. The service succeeds with the detected script
  \<open>Devanagari\<close> and a list as result: the response model rejects the list, and the
  response carries the request's \<open>Auto-detect\<close> with \<open>success = False\<close>. The service
  succeeds with the detected value 0, which is neither empty nor absent: the response
  carries the request's \<open>Auto-detect\<close>.
\<close>
theorem rejected_result_or_zero_script_counterexample:
  \<open>fst (transliterate
          (example_env (answers
             (ascii ''{"source_script": "Devanagari", "result": ["namaste"]}'')))
          (tl_text namaste_request) (tl_source_script namaste_request)
          (tl_target_script namaste_request) []) =
      (True, JArr [JStr (ascii ''namaste'')], JStr (ascii ''Devanagari''), None) \<and>
    fst (transliterate_text
          (example_env (answers
             (ascii ''{"source_script": "Devanagari", "result": ["namaste"]}'')))
          namaste_request []) =
      \<lparr>tlr_success = False, tlr_transliterated_text = None,
       tlr_source_script = ascii ''Auto-detect'', tlr_target_script = ascii ''Latin'',
       tlr_error_message = Some (ascii ''validation error'')\<rparr> \<and>
    fst (transliterate
          (example_env (answers (ascii ''{"source_script": 0, "result": "namaste"}'')))
          (tl_text namaste_request) (tl_source_script namaste_request)
          (tl_target_script namaste_request) []) =
      (True, JStr (ascii ''namaste''), JInt 0, None) \<and>
    fst (transliterate_text
          (example_env (answers (ascii ''{"source_script": 0, "result": "namaste"}'')))
          namaste_request []) =
      \<lparr>tlr_success = True, tlr_transliterated_text = Some (ascii ''namaste''),
       tlr_source_script = ascii ''Auto-detect'', tlr_target_script = ascii ''Latin'',
       tlr_error_message = None\<rparr>\<close>
proof -
  let ?t1 = \<open>ascii ''{"source_script": "Devanagari", "result": ["namaste"]}''\<close>
  let ?d1 = "[(ascii ''source_script'', JStr (ascii ''Devanagari'')),
              (ascii ''result'', JArr [JStr (ascii ''namaste'')])]"
  let ?t2 = \<open>ascii ''{"source_script": 0, "result": "namaste"}''\<close>
  let ?d2 = "[(ascii ''source_script'', JInt 0), (ascii ''result'', JStr (ascii ''namaste''))]"
  have l1: "example_loads ?t1 = Inr (JObj ?d1)"
    by (simp add: example_loads_def example_documents_def ascii_def)
  have l2: "example_loads ?t2 = Inr (JObj ?d2)"
    by (simp add: example_loads_def example_documents_def ascii_def)
  have "\<exists>w'. transliterate (example_env (answers ?t1)) (tl_text namaste_request)
            (tl_source_script namaste_request) (tl_target_script namaste_request) [] =
           ((True, JArr [JStr (ascii ''namaste'')], JStr (ascii ''Devanagari''), None), w')"
    by (rule transliterate_example[OF _ _ _ l1]) (simp_all add: ascii_def)
  then obtain w1 where r1: "transliterate (example_env (answers ?t1)) (tl_text namaste_request)
            (tl_source_script namaste_request) (tl_target_script namaste_request) [] =
           ((True, JArr [JStr (ascii ''namaste'')], JStr (ascii ''Devanagari''), None), w1)"
    by blast
  have "\<exists>w'. transliterate (example_env (answers ?t2)) (tl_text namaste_request)
            (tl_source_script namaste_request) (tl_target_script namaste_request) [] =
           ((True, JStr (ascii ''namaste''), JInt 0, None), w')"
    by (rule transliterate_example[OF _ _ _ l2]) (simp_all add: ascii_def)
  then obtain w2 where r2: "transliterate (example_env (answers ?t2)) (tl_text namaste_request)
            (tl_source_script namaste_request) (tl_target_script namaste_request) [] =
           ((True, JStr (ascii ''namaste''), JInt 0, None), w2)"
    by blast
  have vt: "validation_text (example_env p) v = ascii ''validation error''" for p v
    by (simp add: example_env_def)
  have e1: "fst (transliterate_text (example_env (answers ?t1)) namaste_request []) =
      \<lparr>tlr_success = False, tlr_transliterated_text = None,
       tlr_source_script = ascii ''Auto-detect'', tlr_target_script = ascii ''Latin'',
       tlr_error_message = Some (ascii ''validation error'')\<rparr>"
    unfolding fst_transliterate_text[OF r1]
    by (simp add: new_TransliterationResponse_def vt namaste_request_def)
  have e2: "fst (transliterate_text (example_env (answers ?t2)) namaste_request []) =
      \<lparr>tlr_success = True, tlr_transliterated_text = Some (ascii ''namaste''),
       tlr_source_script = ascii ''Auto-detect'', tlr_target_script = ascii ''Latin'',
       tlr_error_message = None\<rparr>"
    unfolding fst_transliterate_text[OF r2]
    by (simp add: new_TransliterationResponse_def or_else_def namaste_request_def)
  from r1 r2 e1 e2 show ?thesis by simp
qed

section \<open>The batches and the well-behaved provider\<close>

lemma range_step_multiples:
  assumes "0 < step"
  shows "set (range_step n step) = {i. i < n \<and> step dvd i}"
proof -
  have k: "k < (n + step - 1) div step \<longleftrightarrow> k * step < n" for k
  proof -
    have "k < (n + step - 1) div step \<longleftrightarrow> Suc k \<le> (n + step - 1) div step" by auto
    also have "\<dots> \<longleftrightarrow> Suc k * step \<le> n + step - 1"
      using assms by (simp only: less_eq_div_iff_mult_less_eq)
    also have "\<dots> \<longleftrightarrow> k * step < n"
      using assms by auto
    finally show ?thesis .
  qed
  show ?thesis
  proof (intro set_eqI iffI)
    fix i assume "i \<in> set (range_step n step)"
    then obtain k where "k < (n + step - 1) div step" and "i = k * step"
      by (auto simp: range_step_def)
    then show "i \<in> {i. i < n \<and> step dvd i}" using k by simp
  next
    fix i assume "i \<in> {i. i < n \<and> step dvd i}"
    then obtain k where i: "i = k * step" and "i < n" by (auto simp: dvd_def mult.commute)
    then have "k < (n + step - 1) div step" using k by simp
    then show "i \<in> set (range_step n step)" using i by (auto simp: range_step_def)
  qed
qed

lemma range_step_sorted: "0 < step \<Longrightarrow> sorted_wrt (<) (range_step n step)"
  by (simp add: range_step_def sorted_wrt_map sorted_wrt_upt[unfolded sorted_wrt_iff_nth_less] sorted_wrt_iff_nth_less)

lemma translate_batch_well_behaved:
  assumes "well_behaved env"
  shows "\<exists>out. translate_batch env cues s t w =
           (Inr out, w @ [Generate (build_prompt (map cue_text cues) s t)])"
proof -
  from assms obtain r ts where
    g: "generate_content env w (build_prompt (map cue_text cues) s t) = Inr r" and
    j: "json_loads env (clean_response r) = Inr (JArr (map JStr ts))"
    unfolding well_behaved_def by blast
  have "\<forall>i<length cues. i < length (map JStr ts) \<longrightarrow> (\<exists>s. map JStr ts ! i = JStr s)"
    by simp
  then have "\<forall>i<length cues. 0 + i < length (map JStr ts) \<longrightarrow>
               (\<exists>s. map JStr ts ! (0 + i) = JStr s)"
    by simp
  from build_result_general[OF this, of env "[]"]
  obtain out where "build_result env 0 cues (map JStr ts) [] = Inr out" by auto
  then show ?thesis
    using g j by (simp add: translate_batch_def generate_def subtitle_parse_response_def)
qed

lemma retry_well_behaved:
  assumes "well_behaved env"
  shows "\<exists>out w'. translate_batch_with_retry env cues s t w = (Inr out, w')"
proof -
  have u: "[0..<MAX_RETRIES] = 0 # [1..<MAX_RETRIES]"
    by (simp add: MAX_RETRIES_def upt_rec)
  from translate_batch_well_behaved[OF assms, of cues s t w]
  show ?thesis
    by (auto simp: translate_batch_with_retry_def retry_upto_def u)
qed

lemma translate_batches_well_behaved:
  assumes "well_behaved env"
  shows "\<exists>out w'. translate_batches env batches s t acc w = (Inr out, w')"
proof (induction batches arbitrary: acc w)
  case Nil
  show ?case by simp
next
  case (Cons b batches)
  from retry_well_behaved[OF assms, of b s t w]
  obtain tr w1 where "translate_batch_with_retry env b s t w = (Inr tr, w1)" by blast
  with Cons[of "acc @ tr" w1] show ?case by simp
qed

text \<open>
  The pipeline does return when the provider does its part: if every call is answered
  with a text that decodes to an array of strings, each batch succeeds at its first
  attempt and \<open>translate_subtitles\<close> returns a list, for every batch size but zero.
\<close>

lemma translate_subtitles_returns:
  assumes "well_behaved env" and "batch_size \<noteq> 0"
  shows "\<exists>out w'. translate_subtitles env cues s t batch_size w = (Inr out, w')"
proof -
  from assms(2) have "\<exists>batches. make_batches cues batch_size = Inr batches"
    by (simp add: make_batches_def)
  then obtain batches where "make_batches cues batch_size = Inr batches" by blast
  with translate_batches_well_behaved[OF assms(1), of batches s t "[]" w]
  show ?thesis by (simp add: translate_subtitles_def)
qed

end
